theory Spec2Isabelle
  imports Complex_Main
begin

section \<open>Python values, exceptions and tensors\<close>

text \<open>
  The file \<^verbatim>\<open>model.py\<close> wires layers of an external tensor library into five
  classifier classes. The embedding follows the file statement by statement. The
  library itself is not part of the file: its modules are modelled by their constructor
  checks, their shape arithmetic and their effects on parameters, buffers and the random
  generator, while the numbers a kernel computes are a parameter of the embedding
  (\<open>numerics\<close> below). Tensor entries are real numbers; rounding is not modelled.
\<close>

datatype NormalizationMethod = BATCH | LAYER | GROUP

definition NUM_GROUPS :: nat where
  "NUM_GROUPS = 8"

text \<open>
  Python is dynamically typed: the argument \<^verbatim>\<open>method\<close> of \<^verbatim>\<open>normalizer\<close> can be any
  object, and a global name evaluates to whatever the module namespace binds it to.
\<close>

datatype pyval =
    PyNone
  | PyInt int
  | PyFloat real
  | PyStr string
  | PyEnum NormalizationMethod
  | PyObject string

text \<open>
  An exception records where it is raised: inside the library, or by a statement of
  \<^verbatim>\<open>model.py\<close> itself (an explicit \<^verbatim>\<open>raise\<close>, or a name of the file that the
  interpreter cannot resolve).
\<close>

datatype origin = Library | ThisFile

datatype exc = ValueError | RuntimeError | TypeError | NameError | IndexError | ZeroDivisionError

datatype error = Raised origin exc string

fun raised_by :: "error \<Rightarrow> origin" where
  "raised_by (Raised orig k msg) = orig"

definition bindE :: "'e + 'a \<Rightarrow> ('a \<Rightarrow> 'e + 'b) \<Rightarrow> 'e + 'b" where
  "bindE r f = (case r of Inl e \<Rightarrow> Inl e | Inr v \<Rightarrow> f v)"

datatype dtype = Float32 | Float64 | Int64

text \<open>A tensor: its shape, its element type, and its entries by flat row-major index.\<close>

record tensor =
  shape :: "nat list"
  dtype :: dtype
  elems :: "nat \<Rightarrow> real"

definition filled :: "nat list \<Rightarrow> dtype \<Rightarrow> real \<Rightarrow> tensor" where
  "filled s d v = \<lparr>shape = s, dtype = d, elems = (\<lambda>k. v)\<rparr>"

section \<open>Library modules\<close>

text \<open>The hyperparameters of a library module, as its constructor receives them.\<close>

datatype layer =
    Conv2d nat nat "nat \<times> nat" nat
  | BatchNorm2d nat
  | GroupNorm nat nat
  | ReLU
  | Dropout real
  | MaxPool2d "nat \<times> nat" nat
  | AvgPool2d nat
  | AdaptiveAvgPool2d nat

text \<open>
  A module object. A library module is its hyperparameters and its identity, the address
  of the cell that holds its parameters and buffers. \<open>ConvLayer\<close> and \<open>TransBlock\<close>
  are the two module classes of the file; each owns one attribute, \<^verbatim>\<open>layer\<close>.
\<close>

datatype module =
    Lib layer nat
  | Sequential "module list"
  | ConvLayer module
  | TransBlock module

datatype call = Call layer nat | View "int list" | LogSoftmax int

text \<open>
  The state a program run threads through: the object store (next free address, and the
  parameter and buffer tensors of each library module), the state of the library's global
  random generator, and the log of library operations applied so far.
\<close>

record world =
  next_addr :: nat
  cells :: "nat \<Rightarrow> tensor list"
  rng :: nat
  calls :: "call list"

text \<open>
  The numbers the library computes: the random initial weights of a convolution, the
  entries of a module's output (from hyperparameters, mode, generator state, parameters
  and input), and the running statistics a batch normalisation stores in training mode.
\<close>

record numerics =
  kaiming_uniform :: "nat \<Rightarrow> nat list \<Rightarrow> nat \<Rightarrow> real"
  kernel :: "layer \<Rightarrow> bool \<Rightarrow> nat \<Rightarrow> tensor list \<Rightarrow> tensor \<Rightarrow> nat \<Rightarrow> real"
  new_buffers :: "layer \<Rightarrow> tensor list \<Rightarrow> tensor \<Rightarrow> tensor list"

definition new_module :: "layer \<Rightarrow> tensor list \<Rightarrow> world \<Rightarrow> module \<times> world" where
  "new_module l ps w =
     (Lib l (next_addr w),
      w\<lparr>next_addr := Suc (next_addr w), cells := (cells w)(next_addr w := ps)\<rparr>)"

subsection \<open>Constructors\<close>

text \<open>
  Each constructor allocates the module's parameters. A negative size is refused when the
  parameter tensor is created; \<open>GroupNorm\<close> checks divisibility first; \<open>Dropout\<close>
  checks that the probability lies in \<open>[0, 1]\<close>.
\<close>

definition negative_dimension :: error where
  "negative_dimension = Raised Library RuntimeError ''Trying to create tensor with negative dimension''"

definition Conv2d_init ::
  "numerics \<Rightarrow> int \<Rightarrow> int \<Rightarrow> nat \<times> nat \<Rightarrow> nat \<Rightarrow> world \<Rightarrow> error + module \<times> world" where
  "Conv2d_init K in_channels out_channels kernel_size padding w =
     (if in_channels < 0 \<or> out_channels < 0 then Inl negative_dimension
      else
        let s = [nat out_channels, nat in_channels, fst kernel_size, snd kernel_size] in
        Inr (new_module (Conv2d (nat in_channels) (nat out_channels) kernel_size padding)
               [\<lparr>shape = s, dtype = Float32, elems = kaiming_uniform K (rng w) s\<rparr>]
               (w\<lparr>rng := Suc (rng w)\<rparr>)))"

definition BatchNorm2d_init :: "int \<Rightarrow> world \<Rightarrow> error + module \<times> world" where
  "BatchNorm2d_init num_features w =
     (if num_features < 0 then Inl negative_dimension
      else
        let c = nat num_features in
        Inr (new_module (BatchNorm2d c)
               [filled [c] Float32 1, filled [c] Float32 0,
                filled [c] Float32 0, filled [c] Float32 1, filled [] Int64 0] w))"

definition GroupNorm_init :: "nat \<Rightarrow> int \<Rightarrow> world \<Rightarrow> error + module \<times> world" where
  "GroupNorm_init num_groups num_channels w =
     (if num_groups = 0 then Inl (Raised Library ZeroDivisionError ''integer modulo by zero'')
      else if num_channels mod int num_groups \<noteq> 0
        then Inl (Raised Library ValueError ''num_channels must be divisible by num_groups'')
      else if num_channels < 0 then Inl negative_dimension
      else
        let c = nat num_channels in
        Inr (new_module (GroupNorm num_groups c) [filled [c] Float32 1, filled [c] Float32 0] w))"

definition ReLU_init :: "world \<Rightarrow> error + module \<times> world" where
  "ReLU_init w = Inr (new_module ReLU [] w)"

definition Dropout_range :: "real \<Rightarrow> world \<Rightarrow> error + module \<times> world" where
  "Dropout_range p w =
     (if p < 0 \<or> 1 < p
        then Inl (Raised Library ValueError ''dropout probability has to be between 0 and 1'')
      else Inr (new_module (Dropout p) [] w))"

fun Dropout_init :: "pyval \<Rightarrow> world \<Rightarrow> error + module \<times> world" where
  "Dropout_init (PyFloat p) w = Dropout_range p w"
| "Dropout_init (PyInt i) w = Dropout_range (of_int i) w"
| "Dropout_init v w = Inl (Raised Library TypeError ''comparison not supported for this type'')"

definition MaxPool2d_init :: "nat \<times> nat \<Rightarrow> nat \<Rightarrow> world \<Rightarrow> error + module \<times> world" where
  "MaxPool2d_init kernel_size stride w = Inr (new_module (MaxPool2d kernel_size stride) [] w)"

definition AvgPool2d_init :: "nat \<Rightarrow> world \<Rightarrow> error + module \<times> world" where
  "AvgPool2d_init kernel_size w = Inr (new_module (AvgPool2d kernel_size) [] w)"

definition AdaptiveAvgPool2d_init :: "nat \<Rightarrow> world \<Rightarrow> error + module \<times> world" where
  "AdaptiveAvgPool2d_init output_size w = Inr (new_module (AdaptiveAvgPool2d output_size) [] w)"

text \<open>
  \<^verbatim>\<open>nn.Sequential(a, b, ...)\<close>: Python evaluates the argument expressions from left to
  right; the first exception leaves the call.
\<close>

fun eval_args :: "(world \<Rightarrow> error + 'a \<times> world) list \<Rightarrow> world \<Rightarrow> error + 'a list \<times> world" where
  "eval_args [] w = Inr ([], w)"
| "eval_args (c # cs) w =
     (case c w of
        Inl e \<Rightarrow> Inl e
      | Inr (m, w1) \<Rightarrow>
          (case eval_args cs w1 of
             Inl e \<Rightarrow> Inl e
           | Inr (ms, w2) \<Rightarrow> Inr (m # ms, w2)))"

definition Sequential_init ::
  "(world \<Rightarrow> error + module \<times> world) list \<Rightarrow> world \<Rightarrow> error + module \<times> world" where
  "Sequential_init cs w = bindE (eval_args cs w) (\<lambda>(ms, w'). Inr (Sequential ms, w'))"

subsection \<open>Shapes\<close>

text \<open>
  Convolution and pooling take a batched \<open>[N, C, H, W]\<close> or an unbatched \<open>[C, H, W]\<close>
  input.
\<close>

fun split_chw :: "nat list \<Rightarrow> (nat list \<times> nat \<times> nat \<times> nat) option" where
  "split_chw [n, c, h, w] = Some ([n], c, h, w)"
| "split_chw [c, h, w] = Some ([], c, h, w)"
| "split_chw s = None"

definition not_3d_4d :: error where
  "not_3d_4d = Raised Library RuntimeError ''Expected 3D (unbatched) or 4D (batched) input''"

definition pool_shape :: "nat \<times> nat \<Rightarrow> nat \<Rightarrow> nat list \<Rightarrow> error + nat list" where
  "pool_shape k st s =
     (case split_chw s of
        None \<Rightarrow> Inl not_3d_4d
      | Some (b, c, h, w) \<Rightarrow>
          if st = 0 then Inl (Raised Library RuntimeError ''stride should be greater than zero'')
          else if h < fst k \<or> w < snd k \<or> fst k = 0 \<or> snd k = 0
            then Inl (Raised Library RuntimeError ''Output size is too small'')
          else Inr (b @ [c, (h - fst k) div st + 1, (w - snd k) div st + 1]))"

text \<open>
  The shape a library module returns for an input of shape \<open>s\<close> and element type \<open>d\<close>,
  or the exception it raises. The parameters the constructors above create are
  \<open>Float32\<close>, and a convolution refuses an input of another element type.
\<close>

fun lib_shape :: "bool \<Rightarrow> layer \<Rightarrow> nat list \<Rightarrow> dtype \<Rightarrow> error + nat list" where
  "lib_shape tr (Conv2d cin cout k p) s d =
     (case split_chw s of
        None \<Rightarrow> Inl not_3d_4d
      | Some (b, c, h, w) \<Rightarrow>
          if d \<noteq> Float32
            then Inl (Raised Library RuntimeError ''Input type and weight type should be the same'')
          else if c \<noteq> cin
            then Inl (Raised Library RuntimeError ''input channels do not match the weight'')
          else if h + 2 * p < fst k \<or> w + 2 * p < snd k
            then Inl (Raised Library RuntimeError ''Kernel size can not be greater than actual input size'')
          else Inr (b @ [cout, h + 2 * p - fst k + 1, w + 2 * p - snd k + 1]))"
| "lib_shape tr (BatchNorm2d c) s d =
     (case s of
        [n, c', h, w] \<Rightarrow>
          if c' \<noteq> c
            then Inl (Raised Library RuntimeError ''running_mean should contain as many elements as channels'')
          else if tr \<and> n * h * w = 1
            then Inl (Raised Library ValueError ''Expected more than 1 value per channel when training'')
          else Inr s
      | _ \<Rightarrow> Inl (Raised Library ValueError ''expected 4D input''))"
| "lib_shape tr (GroupNorm g c) s d =
     (case s of
        n # c' # rest \<Rightarrow>
          if g = 0 then Inl (Raised Library ZeroDivisionError ''integer division by zero'')
          else if (n * c' div g) * prod_list rest = 1
            then Inl (Raised Library ValueError ''Expected more than 1 value per channel when training'')
          else if c' \<noteq> c
            then Inl (Raised Library RuntimeError ''Expected weight of size equal to the number of channels'')
          else Inr s
      | _ \<Rightarrow> Inl (Raised Library RuntimeError ''Expected at least 2 dimensions for input tensor''))"
| "lib_shape tr ReLU s d = Inr s"
| "lib_shape tr (Dropout p) s d = Inr s"
| "lib_shape tr (MaxPool2d k st) s d = pool_shape k st s"
| "lib_shape tr (AvgPool2d k) s d = pool_shape (k, k) k s"
| "lib_shape tr (AdaptiveAvgPool2d n) s d =
     (case split_chw s of
        None \<Rightarrow> Inl not_3d_4d
      | Some (b, c, h, w) \<Rightarrow>
          if c = 0 \<or> h = 0 \<or> w = 0
            then Inl (Raised Library RuntimeError ''Expected input to have non-zero size for non-batch dimensions'')
          else Inr (b @ [c, n, n]))"

subsection \<open>Calling a module\<close>

text \<open>
  Calling a library module checks the input, computes the output and has the module's
  effect: in training mode batch normalisation stores new running statistics in its own
  cell and dropout draws from the random generator. Every call is logged.
\<close>

fun lib_effect :: "numerics \<Rightarrow> bool \<Rightarrow> layer \<Rightarrow> nat \<Rightarrow> tensor \<Rightarrow> world \<Rightarrow> world" where
  "lib_effect K tr (BatchNorm2d c) a x w =
     (if tr then w\<lparr>cells := (cells w)(a := new_buffers K (BatchNorm2d c) (cells w a) x)\<rparr> else w)"
| "lib_effect K tr (Dropout p) a x w = (if tr then w\<lparr>rng := Suc (rng w)\<rparr> else w)"
| "lib_effect K tr l a x w = w"

definition log_call :: "call \<Rightarrow> world \<Rightarrow> world" where
  "log_call c w = w\<lparr>calls := calls w @ [c]\<rparr>"

definition lib_forward ::
  "numerics \<Rightarrow> bool \<Rightarrow> layer \<Rightarrow> nat \<Rightarrow> world \<Rightarrow> tensor \<Rightarrow> error + tensor \<times> world" where
  "lib_forward K tr l a w x =
     (case lib_shape tr l (shape x) (dtype x) of
        Inl e \<Rightarrow> Inl e
      | Inr s \<Rightarrow>
          Inr (\<lparr>shape = s, dtype = dtype x, elems = kernel K l tr (rng w) (cells w a) x\<rparr>,
               log_call (Call l a) (lib_effect K tr l a x w)))"

text \<open>
  \<open>forward\<close> is what calling a module object does. A \<open>Sequential\<close> feeds each child
  the output of the one before. \<^verbatim>\<open>ConvLayer.forward\<close> and \<^verbatim>\<open>TransBlock.forward\<close> are
  \<^verbatim>\<open>x = self.layer(x); return x\<close>.
\<close>

fun forward :: "numerics \<Rightarrow> bool \<Rightarrow> module \<Rightarrow> world \<Rightarrow> tensor \<Rightarrow> error + tensor \<times> world"
  and forward_seq :: "numerics \<Rightarrow> bool \<Rightarrow> module list \<Rightarrow> world \<Rightarrow> tensor \<Rightarrow> error + tensor \<times> world"
where
  "forward K tr (Lib l a) w x = lib_forward K tr l a w x"
| "forward K tr (Sequential ms) w x = forward_seq K tr ms w x"
| "forward K tr (ConvLayer layer) w x = forward K tr layer w x"
| "forward K tr (TransBlock layer) w x = forward K tr layer w x"
| "forward_seq K tr [] w x = Inr (x, w)"
| "forward_seq K tr (m # ms) w x =
     (case forward K tr m w x of
        Inl e \<Rightarrow> Inl e
      | Inr (y, w') \<Rightarrow> forward_seq K tr ms w' y)"

subsection \<open>Tensor functions\<close>

text \<open>
  \<^verbatim>\<open>x.view(-1, c)\<close> keeps the entries and infers the first dimension from the number of
  elements, which \<open>c\<close> must divide; a tensor of no elements becomes one of shape \<open>(0, c)\<close>.
\<close>

definition view :: "tensor \<Rightarrow> nat \<Rightarrow> error + tensor" where
  "view x c =
     (let n = prod_list (shape x) in
      if c = 0 \<or> n mod c \<noteq> 0
        then Inl (Raised Library RuntimeError ''shape is invalid for input of this size'')
      else Inr (x\<lparr>shape := [n div c, c]\<rparr>))"

text \<open>
  \<^verbatim>\<open>F.log_softmax(x, dim)\<close>: every entry minus the logarithm of the sum of the
  exponentials along the dimension given (\<open>axis\<close> below). The entries that share all other indices with
  entry \<open>k\<close> are \<open>stride\<close> apart, starting at \<open>base\<close>.
\<close>

definition log_softmax_along :: "nat list \<Rightarrow> nat \<Rightarrow> (nat \<Rightarrow> real) \<Rightarrow> nat \<Rightarrow> real" where
  "log_softmax_along s d f k =
     (let size = s ! d;
          stride = prod_list (drop (Suc d) s);
          base = k - ((k div stride) mod size) * stride
      in f k - ln (\<Sum>t<size. exp (f (base + t * stride))))"

definition log_softmax :: "tensor \<Rightarrow> int \<Rightarrow> error + tensor" where
  "log_softmax x axis =
     (let n = int (length (shape x));
          d = (if axis < 0 then axis + n else axis)
      in if dtype x = Int64
           then Inl (Raised Library RuntimeError ''log_softmax not implemented for Long'')
         else if shape x = [] \<and> (axis = 0 \<or> axis = - 1) then Inr (x\<lparr>elems := (\<lambda>k. 0)\<rparr>)
         else if d < 0 \<or> n \<le> d then Inl (Raised Library IndexError ''Dimension out of range'')
         else Inr (x\<lparr>elems := log_softmax_along (shape x) (nat d) (elems x)\<rparr>))"

definition call_view :: "nat \<Rightarrow> world \<Rightarrow> tensor \<Rightarrow> error + tensor \<times> world" where
  "call_view c w x = bindE (view x c) (\<lambda>y. Inr (y, log_call (View [- 1, int c]) w))"

definition call_log_softmax :: "int \<Rightarrow> world \<Rightarrow> tensor \<Rightarrow> error + tensor \<times> world" where
  "call_log_softmax axis w x = bindE (log_softmax x axis) (\<lambda>y. Inr (y, log_call (LogSoftmax axis) w))"

section \<open>The file's helper and its two layer classes\<close>

definition normalizer :: "pyval \<Rightarrow> int \<Rightarrow> world \<Rightarrow> error + module \<times> world" where
  "normalizer method out_channels w =
     (if method = PyEnum BATCH then BatchNorm2d_init out_channels w
      else if method = PyEnum LAYER then GroupNorm_init 1 out_channels w
      else if method = PyEnum GROUP then GroupNorm_init NUM_GROUPS out_channels w
      else Inl (Raised ThisFile ValueError ''Invalid NormalizationMethod''))"

definition ConvLayer_init ::
  "numerics \<Rightarrow> int \<Rightarrow> int \<Rightarrow> nat \<Rightarrow> pyval \<Rightarrow> world \<Rightarrow> error + module \<times> world" where
  "ConvLayer_init K in_channels out_channels padding norm_method w =
     bindE (Sequential_init
              [Conv2d_init K in_channels out_channels (3, 3) padding,
               normalizer norm_method out_channels,
               ReLU_init,
               Dropout_init (PyFloat (5 / 100))] w)
       (\<lambda>(layer, w'). Inr (ConvLayer layer, w'))"

definition TransBlock_init :: "numerics \<Rightarrow> int \<Rightarrow> int \<Rightarrow> world \<Rightarrow> error + module \<times> world" where
  "TransBlock_init K in_channels out_channels w =
     bindE (Sequential_init
              [Conv2d_init K in_channels out_channels (1, 1) 0,
               MaxPool2d_init (2, 2) 2] w)
       (\<lambda>(layer, w'). Inr (TransBlock layer, w'))"

section \<open>The model classes\<close>

text \<open>
  The names bound at the top level of \<^verbatim>\<open>model.py\<close>: its imports, its constant, its
  function and its classes. A name a constructor body reads that is neither local nor bound
  here (nor a builtin, which \<^verbatim>\<open>dropout_value\<close> is not) raises \<^verbatim>\<open>NameError\<close> at the
  statement that reads it.
\<close>

definition module_globals :: "(string \<times> pyval) list" where
  "module_globals =
     [(''Enum'', PyObject ''class''), (''Tensor'', PyObject ''class''),
      (''nn'', PyObject ''module''), (''F'', PyObject ''module''),
      (''NUM_GROUPS'', PyInt 8),
      (''NormalizationMethod'', PyObject ''class''), (''normalizer'', PyObject ''function''),
      (''ConvLayer'', PyObject ''class''), (''TransBlock'', PyObject ''class''),
      (''Model'', PyObject ''class''), (''session_6_Model'', PyObject ''class''),
      (''Session_7_Model_1'', PyObject ''class''), (''Session_7_Model_2'', PyObject ''class''),
      (''Session_7_Model_3'', PyObject ''class'')]"

definition global_name :: "string \<Rightarrow> error + pyval" where
  "global_name n =
     (case map_of module_globals n of
        Some v \<Rightarrow> Inr v
      | None \<Rightarrow> Inl (Raised ThisFile NameError n))"

text \<open>The expression \<^verbatim>\<open>nn.Dropout(dropout_value)\<close>: the argument is evaluated first.\<close>

definition Dropout_dropout_value :: "world \<Rightarrow> error + module \<times> world" where
  "Dropout_dropout_value w = bindE (global_name ''dropout_value'') (\<lambda>p. Dropout_init p w)"

text \<open>
  Each class is a record of its attributes in the order \<^verbatim>\<open>__init__\<close> assigns them;
  \<open>_init\<close> is \<^verbatim>\<open>__init__\<close> and \<open>_forward\<close> is \<^verbatim>\<open>forward\<close>. The flag \<open>tr\<close> is the
  instance's mode (\<^verbatim>\<open>training\<close>), which the library sets on all its modules together.
\<close>

subsection \<open>\<^verbatim>\<open>Model\<close>\<close>

record Model =
  conv_block1 :: module
  trans_block1 :: module
  conv_block2 :: module
  trans_block2 :: module
  conv_block3 :: module
  trans_block3 :: module
  gap :: module
  out :: module

definition Model_init :: "numerics \<Rightarrow> pyval \<Rightarrow> world \<Rightarrow> error + Model \<times> world" where
  "Model_init K norm_method w0 =
     bindE (Sequential_init
              [ConvLayer_init K 3 16 1 norm_method,
               ConvLayer_init K 16 32 1 norm_method] w0) (\<lambda>(conv_block1, w1).
     bindE (TransBlock_init K 32 16 w1) (\<lambda>(trans_block1, w2).
     bindE (Sequential_init
              [ConvLayer_init K 16 16 1 norm_method,
               ConvLayer_init K 16 16 1 norm_method,
               ConvLayer_init K 16 32 1 norm_method] w2) (\<lambda>(conv_block2, w3).
     bindE (TransBlock_init K 32 16 w3) (\<lambda>(trans_block2, w4).
     bindE (Sequential_init
              [ConvLayer_init K 16 16 1 norm_method,
               ConvLayer_init K 16 16 1 norm_method,
               ConvLayer_init K 16 32 1 norm_method] w4) (\<lambda>(conv_block3, w5).
     bindE (TransBlock_init K 32 16 w5) (\<lambda>(trans_block3, w6).
     bindE (AdaptiveAvgPool2d_init 1 w6) (\<lambda>(gap, w7).
     bindE (Conv2d_init K 16 10 (1, 1) 0 w7) (\<lambda>(out, w8).
     Inr (\<lparr>conv_block1 = conv_block1,
           trans_block1 = trans_block1,
           conv_block2 = conv_block2,
           trans_block2 = trans_block2,
           conv_block3 = conv_block3,
           trans_block3 = trans_block3,
           gap = gap,
           out = out\<rparr>,
          w8)))))))))"

definition Model_forward ::
  "numerics \<Rightarrow> bool \<Rightarrow> Model \<Rightarrow> world \<Rightarrow> tensor \<Rightarrow> error + tensor \<times> world" where
  "Model_forward K tr self w0 x0 =
     bindE (forward K tr (conv_block1 self) w0 x0) (\<lambda>(x1, w1).
     bindE (forward K tr (trans_block1 self) w1 x1) (\<lambda>(x2, w2).
     bindE (forward K tr (conv_block2 self) w2 x2) (\<lambda>(x3, w3).
     bindE (forward K tr (trans_block2 self) w3 x3) (\<lambda>(x4, w4).
     bindE (forward K tr (conv_block3 self) w4 x4) (\<lambda>(x5, w5).
     bindE (forward K tr (trans_block3 self) w5 x5) (\<lambda>(x6, w6).
     bindE (forward K tr (gap self) w6 x6) (\<lambda>(x7, w7).
     bindE (forward K tr (out self) w7 x7) (\<lambda>(x8, w8).
     bindE (call_view 10 w8 x8) (\<lambda>(x9, w9).
     call_log_softmax 1 w9 x9)))))))))"

subsection \<open>\<^verbatim>\<open>session_6_Model\<close>\<close>

record session_6_Model =
  s6_convblock1 :: module
  s6_convblock2 :: module
  s6_convblock3 :: module
  s6_pool1 :: module
  s6_convblock4 :: module
  s6_convblock5 :: module
  s6_convblock6 :: module
  s6_convblock7 :: module
  s6_gap :: module
  s6_convblock8 :: module
  s6_dropout :: module

definition session_6_Model_init :: "numerics \<Rightarrow> world \<Rightarrow> error + session_6_Model \<times> world" where
  "session_6_Model_init K w0 =
     bindE (Sequential_init
              [Conv2d_init K 1 16 (3, 3) 0,
               ReLU_init,
               BatchNorm2d_init 16,
               Dropout_dropout_value] w0) (\<lambda>(convblock1, w1).
     bindE (Sequential_init
              [Conv2d_init K 16 32 (3, 3) 0,
               ReLU_init,
               BatchNorm2d_init 32,
               Dropout_dropout_value] w1) (\<lambda>(convblock2, w2).
     bindE (Sequential_init
              [Conv2d_init K 32 10 (1, 1) 0] w2) (\<lambda>(convblock3, w3).
     bindE (MaxPool2d_init (2, 2) 2 w3) (\<lambda>(pool1, w4).
     bindE (Sequential_init
              [Conv2d_init K 10 16 (3, 3) 0,
               ReLU_init,
               BatchNorm2d_init 16,
               Dropout_dropout_value] w4) (\<lambda>(convblock4, w5).
     bindE (Sequential_init
              [Conv2d_init K 16 16 (3, 3) 0,
               ReLU_init,
               BatchNorm2d_init 16,
               Dropout_dropout_value] w5) (\<lambda>(convblock5, w6).
     bindE (Sequential_init
              [Conv2d_init K 16 16 (3, 3) 0,
               ReLU_init,
               BatchNorm2d_init 16,
               Dropout_dropout_value] w6) (\<lambda>(convblock6, w7).
     bindE (Sequential_init
              [Conv2d_init K 16 16 (3, 3) 1,
               ReLU_init,
               BatchNorm2d_init 16,
               Dropout_dropout_value] w7) (\<lambda>(convblock7, w8).
     bindE (Sequential_init
              [AvgPool2d_init 6] w8) (\<lambda>(gap, w9).
     bindE (Sequential_init
              [Conv2d_init K 16 10 (1, 1) 0] w9) (\<lambda>(convblock8, w10).
     bindE (Dropout_dropout_value w10) (\<lambda>(dropout, w11).
     Inr (\<lparr>s6_convblock1 = convblock1,
           s6_convblock2 = convblock2,
           s6_convblock3 = convblock3,
           s6_pool1 = pool1,
           s6_convblock4 = convblock4,
           s6_convblock5 = convblock5,
           s6_convblock6 = convblock6,
           s6_convblock7 = convblock7,
           s6_gap = gap,
           s6_convblock8 = convblock8,
           s6_dropout = dropout\<rparr>,
          w11))))))))))))"

definition session_6_Model_forward ::
  "numerics \<Rightarrow> bool \<Rightarrow> session_6_Model \<Rightarrow> world \<Rightarrow> tensor \<Rightarrow> error + tensor \<times> world" where
  "session_6_Model_forward K tr self w0 x0 =
     bindE (forward K tr (s6_convblock1 self) w0 x0) (\<lambda>(x1, w1).
     bindE (forward K tr (s6_convblock2 self) w1 x1) (\<lambda>(x2, w2).
     bindE (forward K tr (s6_convblock3 self) w2 x2) (\<lambda>(x3, w3).
     bindE (forward K tr (s6_pool1 self) w3 x3) (\<lambda>(x4, w4).
     bindE (forward K tr (s6_convblock4 self) w4 x4) (\<lambda>(x5, w5).
     bindE (forward K tr (s6_convblock5 self) w5 x5) (\<lambda>(x6, w6).
     bindE (forward K tr (s6_convblock6 self) w6 x6) (\<lambda>(x7, w7).
     bindE (forward K tr (s6_convblock7 self) w7 x7) (\<lambda>(x8, w8).
     bindE (forward K tr (s6_gap self) w8 x8) (\<lambda>(x9, w9).
     bindE (forward K tr (s6_convblock8 self) w9 x9) (\<lambda>(x10, w10).
     bindE (call_view 10 w10 x10) (\<lambda>(x11, w11).
     call_log_softmax (- 1) w11 x11)))))))))))"

subsection \<open>\<^verbatim>\<open>Session_7_Model_1\<close>\<close>

record Session_7_Model_1 =
  s71_convblock1 :: module
  s71_convblock2 :: module
  s71_convblock3 :: module
  s71_pool1 :: module
  s71_convblock4 :: module
  s71_convblock5 :: module
  s71_pool2 :: module
  s71_convblock6 :: module
  s71_gap :: module
  s71_convblock7 :: module
  s71_dropout :: module

definition Session_7_Model_1_init :: "numerics \<Rightarrow> world \<Rightarrow> error + Session_7_Model_1 \<times> world" where
  "Session_7_Model_1_init K w0 =
     bindE (Sequential_init
              [Conv2d_init K 1 8 (3, 3) 0,
               ReLU_init,
               BatchNorm2d_init 8,
               Dropout_dropout_value] w0) (\<lambda>(convblock1, w1).
     bindE (Sequential_init
              [Conv2d_init K 8 16 (3, 3) 0,
               ReLU_init,
               BatchNorm2d_init 16,
               Dropout_dropout_value] w1) (\<lambda>(convblock2, w2).
     bindE (Sequential_init
              [Conv2d_init K 16 10 (1, 1) 0] w2) (\<lambda>(convblock3, w3).
     bindE (MaxPool2d_init (2, 2) 2 w3) (\<lambda>(pool1, w4).
     bindE (Sequential_init
              [Conv2d_init K 10 10 (3, 3) 0,
               ReLU_init,
               BatchNorm2d_init 10,
               Dropout_dropout_value] w4) (\<lambda>(convblock4, w5).
     bindE (Sequential_init
              [Conv2d_init K 10 10 (3, 3) 1,
               ReLU_init,
               BatchNorm2d_init 10,
               Dropout_dropout_value] w5) (\<lambda>(convblock5, w6).
     bindE (MaxPool2d_init (2, 2) 2 w6) (\<lambda>(pool2, w7).
     bindE (Sequential_init
              [Conv2d_init K 10 10 (3, 3) 1,
               ReLU_init,
               BatchNorm2d_init 10,
               Dropout_dropout_value] w7) (\<lambda>(convblock6, w8).
     bindE (Sequential_init
              [AvgPool2d_init 5] w8) (\<lambda>(gap, w9).
     bindE (Sequential_init
              [Conv2d_init K 10 10 (1, 1) 0,
               BatchNorm2d_init 10,
               ReLU_init,
               Dropout_dropout_value] w9) (\<lambda>(convblock7, w10).
     bindE (Dropout_dropout_value w10) (\<lambda>(dropout, w11).
     Inr (\<lparr>s71_convblock1 = convblock1,
           s71_convblock2 = convblock2,
           s71_convblock3 = convblock3,
           s71_pool1 = pool1,
           s71_convblock4 = convblock4,
           s71_convblock5 = convblock5,
           s71_pool2 = pool2,
           s71_convblock6 = convblock6,
           s71_gap = gap,
           s71_convblock7 = convblock7,
           s71_dropout = dropout\<rparr>,
          w11))))))))))))"

definition Session_7_Model_1_forward ::
  "numerics \<Rightarrow> bool \<Rightarrow> Session_7_Model_1 \<Rightarrow> world \<Rightarrow> tensor \<Rightarrow> error + tensor \<times> world" where
  "Session_7_Model_1_forward K tr self w0 x0 =
     bindE (forward K tr (s71_convblock1 self) w0 x0) (\<lambda>(x1, w1).
     bindE (forward K tr (s71_convblock2 self) w1 x1) (\<lambda>(x2, w2).
     bindE (forward K tr (s71_convblock3 self) w2 x2) (\<lambda>(x3, w3).
     bindE (forward K tr (s71_pool1 self) w3 x3) (\<lambda>(x4, w4).
     bindE (forward K tr (s71_convblock4 self) w4 x4) (\<lambda>(x5, w5).
     bindE (forward K tr (s71_convblock5 self) w5 x5) (\<lambda>(x6, w6).
     bindE (forward K tr (s71_pool2 self) w6 x6) (\<lambda>(x7, w7).
     bindE (forward K tr (s71_convblock6 self) w7 x7) (\<lambda>(x8, w8).
     bindE (forward K tr (s71_gap self) w8 x8) (\<lambda>(x9, w9).
     bindE (forward K tr (s71_convblock7 self) w9 x9) (\<lambda>(x10, w10).
     bindE (call_view 10 w10 x10) (\<lambda>(x11, w11).
     call_log_softmax (- 1) w11 x11)))))))))))"

subsection \<open>\<^verbatim>\<open>Session_7_Model_2\<close>\<close>

record Session_7_Model_2 =
  s72_convblock1 :: module
  s72_convblock2 :: module
  s72_convblock3 :: module
  s72_pool1 :: module
  s72_convblock4 :: module
  s72_convblock5 :: module
  s72_convblock6 :: module
  s72_convblock7 :: module
  s72_convblock8 :: module
  s72_convblock9 :: module

definition Session_7_Model_2_init :: "numerics \<Rightarrow> world \<Rightarrow> error + Session_7_Model_2 \<times> world" where
  "Session_7_Model_2_init K w0 =
     bindE (Sequential_init
              [Conv2d_init K 1 8 (3, 3) 0,
               ReLU_init,
               BatchNorm2d_init 8] w0) (\<lambda>(convblock1, w1).
     bindE (Sequential_init
              [Conv2d_init K 8 16 (3, 3) 0,
               ReLU_init,
               BatchNorm2d_init 16] w1) (\<lambda>(convblock2, w2).
     bindE (Sequential_init
              [Conv2d_init K 16 10 (1, 1) 0] w2) (\<lambda>(convblock3, w3).
     bindE (MaxPool2d_init (2, 2) 2 w3) (\<lambda>(pool1, w4).
     bindE (Sequential_init
              [Conv2d_init K 10 10 (3, 3) 0,
               ReLU_init,
               BatchNorm2d_init 10] w4) (\<lambda>(convblock4, w5).
     bindE (Sequential_init
              [Conv2d_init K 10 16 (3, 3) 0,
               ReLU_init,
               BatchNorm2d_init 16] w5) (\<lambda>(convblock5, w6).
     bindE (Sequential_init
              [Conv2d_init K 16 10 (3, 3) 0,
               ReLU_init,
               BatchNorm2d_init 10] w6) (\<lambda>(convblock6, w7).
     bindE (Sequential_init
              [Conv2d_init K 10 10 (3, 3) 0,
               ReLU_init,
               BatchNorm2d_init 10] w7) (\<lambda>(convblock7, w8).
     bindE (Sequential_init
              [Conv2d_init K 10 10 (3, 3) 0,
               ReLU_init,
               BatchNorm2d_init 10] w8) (\<lambda>(convblock8, w9).
     bindE (Sequential_init
              [Conv2d_init K 10 10 (2, 2) 0] w9) (\<lambda>(convblock9, w10).
     Inr (\<lparr>s72_convblock1 = convblock1,
           s72_convblock2 = convblock2,
           s72_convblock3 = convblock3,
           s72_pool1 = pool1,
           s72_convblock4 = convblock4,
           s72_convblock5 = convblock5,
           s72_convblock6 = convblock6,
           s72_convblock7 = convblock7,
           s72_convblock8 = convblock8,
           s72_convblock9 = convblock9\<rparr>,
          w10)))))))))))"

definition Session_7_Model_2_forward ::
  "numerics \<Rightarrow> bool \<Rightarrow> Session_7_Model_2 \<Rightarrow> world \<Rightarrow> tensor \<Rightarrow> error + tensor \<times> world" where
  "Session_7_Model_2_forward K tr self w0 x0 =
     bindE (forward K tr (s72_convblock1 self) w0 x0) (\<lambda>(x1, w1).
     bindE (forward K tr (s72_convblock2 self) w1 x1) (\<lambda>(x2, w2).
     bindE (forward K tr (s72_convblock3 self) w2 x2) (\<lambda>(x3, w3).
     bindE (forward K tr (s72_pool1 self) w3 x3) (\<lambda>(x4, w4).
     bindE (forward K tr (s72_convblock4 self) w4 x4) (\<lambda>(x5, w5).
     bindE (forward K tr (s72_convblock5 self) w5 x5) (\<lambda>(x6, w6).
     bindE (forward K tr (s72_convblock6 self) w6 x6) (\<lambda>(x7, w7).
     bindE (forward K tr (s72_convblock7 self) w7 x7) (\<lambda>(x8, w8).
     bindE (forward K tr (s72_convblock8 self) w8 x8) (\<lambda>(x9, w9).
     bindE (forward K tr (s72_convblock9 self) w9 x9) (\<lambda>(x10, w10).
     bindE (call_view 10 w10 x10) (\<lambda>(x11, w11).
     call_log_softmax (- 1) w11 x11)))))))))))"

subsection \<open>\<^verbatim>\<open>Session_7_Model_3\<close>\<close>

record Session_7_Model_3 =
  s73_convblock1 :: module
  s73_convblock2 :: module
  s73_convblock3 :: module
  s73_pool1 :: module
  s73_convblock4 :: module
  s73_convblock5 :: module
  s73_convblock6 :: module
  s73_convblock7 :: module
  s73_convblock8 :: module
  s73_convblock9 :: module

definition Session_7_Model_3_init :: "numerics \<Rightarrow> world \<Rightarrow> error + Session_7_Model_3 \<times> world" where
  "Session_7_Model_3_init K w0 =
     bindE (Sequential_init
              [Conv2d_init K 1 8 (3, 3) 0,
               ReLU_init,
               BatchNorm2d_init 8] w0) (\<lambda>(convblock1, w1).
     bindE (Sequential_init
              [Conv2d_init K 8 16 (3, 3) 0,
               ReLU_init,
               BatchNorm2d_init 16] w1) (\<lambda>(convblock2, w2).
     bindE (Sequential_init
              [Conv2d_init K 16 10 (1, 1) 0] w2) (\<lambda>(convblock3, w3).
     bindE (MaxPool2d_init (2, 2) 2 w3) (\<lambda>(pool1, w4).
     bindE (Sequential_init
              [Conv2d_init K 10 10 (3, 3) 0,
               ReLU_init,
               BatchNorm2d_init 10] w4) (\<lambda>(convblock4, w5).
     bindE (Sequential_init
              [Conv2d_init K 10 16 (3, 3) 0,
               ReLU_init,
               BatchNorm2d_init 16] w5) (\<lambda>(convblock5, w6).
     bindE (Sequential_init
              [Conv2d_init K 16 10 (3, 3) 0,
               ReLU_init,
               BatchNorm2d_init 10] w6) (\<lambda>(convblock6, w7).
     bindE (Sequential_init
              [Conv2d_init K 10 10 (3, 3) 0,
               ReLU_init,
               BatchNorm2d_init 10] w7) (\<lambda>(convblock7, w8).
     bindE (Sequential_init
              [Conv2d_init K 10 10 (3, 3) 0,
               ReLU_init,
               BatchNorm2d_init 10] w8) (\<lambda>(convblock8, w9).
     bindE (Sequential_init
              [Conv2d_init K 10 10 (2, 2) 0] w9) (\<lambda>(convblock9, w10).
     Inr (\<lparr>s73_convblock1 = convblock1,
           s73_convblock2 = convblock2,
           s73_convblock3 = convblock3,
           s73_pool1 = pool1,
           s73_convblock4 = convblock4,
           s73_convblock5 = convblock5,
           s73_convblock6 = convblock6,
           s73_convblock7 = convblock7,
           s73_convblock8 = convblock8,
           s73_convblock9 = convblock9\<rparr>,
          w10)))))))))))"

definition Session_7_Model_3_forward ::
  "numerics \<Rightarrow> bool \<Rightarrow> Session_7_Model_3 \<Rightarrow> world \<Rightarrow> tensor \<Rightarrow> error + tensor \<times> world" where
  "Session_7_Model_3_forward K tr self w0 x0 =
     bindE (forward K tr (s73_convblock1 self) w0 x0) (\<lambda>(x1, w1).
     bindE (forward K tr (s73_convblock2 self) w1 x1) (\<lambda>(x2, w2).
     bindE (forward K tr (s73_convblock3 self) w2 x2) (\<lambda>(x3, w3).
     bindE (forward K tr (s73_pool1 self) w3 x3) (\<lambda>(x4, w4).
     bindE (forward K tr (s73_convblock4 self) w4 x4) (\<lambda>(x5, w5).
     bindE (forward K tr (s73_convblock5 self) w5 x5) (\<lambda>(x6, w6).
     bindE (forward K tr (s73_convblock6 self) w6 x6) (\<lambda>(x7, w7).
     bindE (forward K tr (s73_convblock7 self) w7 x7) (\<lambda>(x8, w8).
     bindE (forward K tr (s73_convblock8 self) w8 x8) (\<lambda>(x9, w9).
     bindE (forward K tr (s73_convblock9 self) w9 x9) (\<lambda>(x10, w10).
     bindE (call_view 10 w10 x10) (\<lambda>(x11, w11).
     call_log_softmax (- 1) w11 x11)))))))))))"


section \<open>Instances of any class\<close>

text \<open>
  The five classes side by side: a constructor call, the object it returns, the
  attributes of an object in the order \<^verbatim>\<open>__init__\<close> assigns them, and the blocks its
  \<^verbatim>\<open>forward\<close> applies, in the order it applies them. \<^verbatim>\<open>Model()\<close> is
  \<open>New_Model (PyEnum BATCH)\<close>, the default argument.
\<close>

datatype construction =
    New_Model pyval
  | New_session_6_Model
  | New_Session_7_Model_1
  | New_Session_7_Model_2
  | New_Session_7_Model_3

datatype obj =
    Model_instance Model
  | session_6_Model_instance session_6_Model
  | Session_7_Model_1_instance Session_7_Model_1
  | Session_7_Model_2_instance Session_7_Model_2
  | Session_7_Model_3_instance Session_7_Model_3

fun construct :: "numerics \<Rightarrow> construction \<Rightarrow> world \<Rightarrow> error + obj \<times> world" where
  "construct K (New_Model norm_method) w =
     bindE (Model_init K norm_method w) (\<lambda>(self, w'). Inr (Model_instance self, w'))"
| "construct K New_session_6_Model w =
     bindE (session_6_Model_init K w) (\<lambda>(self, w'). Inr (session_6_Model_instance self, w'))"
| "construct K New_Session_7_Model_1 w =
     bindE (Session_7_Model_1_init K w) (\<lambda>(self, w'). Inr (Session_7_Model_1_instance self, w'))"
| "construct K New_Session_7_Model_2 w =
     bindE (Session_7_Model_2_init K w) (\<lambda>(self, w'). Inr (Session_7_Model_2_instance self, w'))"
| "construct K New_Session_7_Model_3 w =
     bindE (Session_7_Model_3_init K w) (\<lambda>(self, w'). Inr (Session_7_Model_3_instance self, w'))"

fun instance_forward ::
  "numerics \<Rightarrow> bool \<Rightarrow> obj \<Rightarrow> world \<Rightarrow> tensor \<Rightarrow> error + tensor \<times> world" where
  "instance_forward K tr (Model_instance self) w x = Model_forward K tr self w x"
| "instance_forward K tr (session_6_Model_instance self) w x = session_6_Model_forward K tr self w x"
| "instance_forward K tr (Session_7_Model_1_instance self) w x = Session_7_Model_1_forward K tr self w x"
| "instance_forward K tr (Session_7_Model_2_instance self) w x = Session_7_Model_2_forward K tr self w x"
| "instance_forward K tr (Session_7_Model_3_instance self) w x = Session_7_Model_3_forward K tr self w x"

fun attributes :: "obj \<Rightarrow> module list" where
  "attributes (Model_instance self) =
     [conv_block1 self, trans_block1 self, conv_block2 self, trans_block2 self,
      conv_block3 self, trans_block3 self, gap self, out self]"
| "attributes (session_6_Model_instance self) =
     [s6_convblock1 self, s6_convblock2 self, s6_convblock3 self, s6_pool1 self,
      s6_convblock4 self, s6_convblock5 self, s6_convblock6 self, s6_convblock7 self,
      s6_gap self, s6_convblock8 self, s6_dropout self]"
| "attributes (Session_7_Model_1_instance self) =
     [s71_convblock1 self, s71_convblock2 self, s71_convblock3 self, s71_pool1 self,
      s71_convblock4 self, s71_convblock5 self, s71_pool2 self, s71_convblock6 self,
      s71_gap self, s71_convblock7 self, s71_dropout self]"
| "attributes (Session_7_Model_2_instance self) =
     [s72_convblock1 self, s72_convblock2 self, s72_convblock3 self, s72_pool1 self,
      s72_convblock4 self, s72_convblock5 self, s72_convblock6 self, s72_convblock7 self,
      s72_convblock8 self, s72_convblock9 self]"
| "attributes (Session_7_Model_3_instance self) =
     [s73_convblock1 self, s73_convblock2 self, s73_convblock3 self, s73_pool1 self,
      s73_convblock4 self, s73_convblock5 self, s73_convblock6 self, s73_convblock7 self,
      s73_convblock8 self, s73_convblock9 self]"

text \<open>
  \<^verbatim>\<open>session_6_Model\<close> and \<^verbatim>\<open>Session_7_Model_1\<close> assign \<^verbatim>\<open>self.dropout\<close> last and
  never apply it; every other attribute is applied once, in the order of assignment.
\<close>

fun blocks :: "obj \<Rightarrow> module list" where
  "blocks (session_6_Model_instance self) = butlast (attributes (session_6_Model_instance self))"
| "blocks (Session_7_Model_1_instance self) = butlast (attributes (Session_7_Model_1_instance self))"
| "blocks inst = attributes inst"

text \<open>The \<^verbatim>\<open>dim\<close> argument each \<^verbatim>\<open>forward\<close> passes to \<^verbatim>\<open>F.log_softmax\<close>.\<close>

fun softmax_dim :: "obj \<Rightarrow> int" where
  "softmax_dim (Model_instance self) = 1"
| "softmax_dim inst = - 1"

text \<open>
  The claimed reading of \<^verbatim>\<open>forward\<close>: the blocks composed in order, then
  \<^verbatim>\<open>view(-1, 10)\<close>, then \<^verbatim>\<open>log_softmax\<close>.
\<close>

definition composition ::
  "numerics \<Rightarrow> bool \<Rightarrow> module list \<Rightarrow> int \<Rightarrow> world \<Rightarrow> tensor \<Rightarrow> error + tensor \<times> world" where
  "composition K tr ms axis w x =
     bindE (forward_seq K tr ms w x) (\<lambda>(y, w1).
     bindE (call_view 10 w1 y) (\<lambda>(z, w2).
     call_log_softmax axis w2 z))"

text \<open>The library operations a module applies when called, in order.\<close>

fun ops :: "module \<Rightarrow> call list"
  and ops_seq :: "module list \<Rightarrow> call list"
where
  "ops (Lib l a) = [Call l a]"
| "ops (Sequential ms) = ops_seq ms"
| "ops (ConvLayer layer) = ops layer"
| "ops (TransBlock layer) = ops layer"
| "ops_seq [] = []"
| "ops_seq (m # ms) = ops m @ ops_seq ms"

text \<open>The cells a module owns, and those an instance owns through its attributes.\<close>

fun addrs :: "module \<Rightarrow> nat set"
  and addrs_seq :: "module list \<Rightarrow> nat set"
where
  "addrs (Lib l a) = {a}"
| "addrs (Sequential ms) = addrs_seq ms"
| "addrs (ConvLayer layer) = addrs layer"
| "addrs (TransBlock layer) = addrs layer"
| "addrs_seq [] = {}"
| "addrs_seq (m # ms) = addrs m \<union> addrs_seq ms"

text \<open>
  The library modules inside a module, in the order a call reaches them, each with its
  hyperparameters and its cell.
\<close>

fun libs :: "module \<Rightarrow> (layer \<times> nat) list"
  and libs_seq :: "module list \<Rightarrow> (layer \<times> nat) list"
where
  "libs (Lib l a) = [(l, a)]"
| "libs (Sequential ms) = libs_seq ms"
| "libs (ConvLayer layer) = libs layer"
| "libs (TransBlock layer) = libs layer"
| "libs_seq [] = []"
| "libs_seq (m # ms) = libs m @ libs_seq ms"

definition instance_addrs :: "obj \<Rightarrow> nat set" where
  "instance_addrs inst = addrs_seq (attributes inst)"

text \<open>Writing new values into a parameter or buffer cell, as an optimiser step does.\<close>

definition set_param :: "nat \<Rightarrow> tensor list \<Rightarrow> world \<Rightarrow> world" where
  "set_param a ps w = w\<lparr>cells := (cells w)(a := ps)\<rparr>"

section \<open>Shapes without values\<close>

text \<open>
  The shape a module returns, computed from the shape and element type of the input
  alone; \<open>forward\<close> is shown to agree with it.
\<close>

fun forward_shape :: "bool \<Rightarrow> module \<Rightarrow> nat list \<Rightarrow> dtype \<Rightarrow> error + nat list"
  and forward_seq_shape :: "bool \<Rightarrow> module list \<Rightarrow> nat list \<Rightarrow> dtype \<Rightarrow> error + nat list"
where
  "forward_shape tr (Lib l a) s d = lib_shape tr l s d"
| "forward_shape tr (Sequential ms) s d = forward_seq_shape tr ms s d"
| "forward_shape tr (ConvLayer layer) s d = forward_shape tr layer s d"
| "forward_shape tr (TransBlock layer) s d = forward_shape tr layer s d"
| "forward_seq_shape tr [] s d = Inr s"
| "forward_seq_shape tr (m # ms) s d =
     (case forward_shape tr m s d of
        Inl e \<Rightarrow> Inl e
      | Inr s' \<Rightarrow> forward_seq_shape tr ms s' d)"

definition composition_shape ::
  "bool \<Rightarrow> module list \<Rightarrow> int \<Rightarrow> nat list \<Rightarrow> dtype \<Rightarrow> error + nat list" where
  "composition_shape tr ms axis s d =
     bindE (forward_seq_shape tr ms s d) (\<lambda>s1.
     bindE (view \<lparr>shape = s1, dtype = d, elems = (\<lambda>k. 0)\<rparr> 10) (\<lambda>z.
     bindE (log_softmax z axis) (\<lambda>y. Inr (shape y))))"

section \<open>A fresh interpreter\<close>

text \<open>An empty object store, and numerics that return zero everywhere.\<close>

definition empty_world :: world where
  "empty_world = \<lparr>next_addr = 0, cells = (\<lambda>a. []), rng = 0, calls = []\<rparr>"

definition zero_numerics :: numerics where
  "zero_numerics =
     \<lparr>kaiming_uniform = (\<lambda>g s k. 0),
      kernel = (\<lambda>l tr g ps x k. 0),
      new_buffers = (\<lambda>l ps x. ps)\<rparr>"

section \<open>Construction\<close>

lemmas ctor_defs = Conv2d_init_def BatchNorm2d_init_def GroupNorm_init_def ReLU_init_def
  Dropout_range_def MaxPool2d_init_def AvgPool2d_init_def AdaptiveAvgPool2d_init_def
  Sequential_init_def new_module_def bindE_def NUM_GROUPS_def normalizer_def
  ConvLayer_init_def TransBlock_init_def Dropout_dropout_value_def global_name_def
  module_globals_def negative_dimension_def Let_def

text \<open>
  Claim C7, as the code has it. For a member of \<open>NormalizationMethod\<close>,
  \<open>normalizer\<close> never reaches its own \<^verbatim>\<open>raise ValueError\<close>: every exception it can
  leave with is the library's. \<open>BATCH\<close> returns \<open>BatchNorm2d(out_channels)\<close> and
  \<open>LAYER\<close> returns \<open>GroupNorm(1, out_channels)\<close> for a non-negative \<open>out_channels\<close>;
  \<open>GROUP\<close> returns \<open>GroupNorm(NUM_GROUPS, out_channels)\<close>, with \<open>NUM_GROUPS = 8\<close>,
  for a non-negative \<open>out_channels\<close> that 8 divides, and for one that 8 does not divide
  the library's \<open>GroupNorm\<close> constructor raises \<open>ValueError\<close>.
\<close>

theorem normalizer_enumeration:
  "(0 \<le> c \<longrightarrow>
      (\<exists>w'. normalizer (PyEnum BATCH) c w = Inr (Lib (BatchNorm2d (nat c)) (next_addr w), w')) \<and>
      (\<exists>w'. normalizer (PyEnum LAYER) c w = Inr (Lib (GroupNorm 1 (nat c)) (next_addr w), w'))) \<and>
   (0 \<le> c \<and> c mod 8 = 0 \<longrightarrow>
      (\<exists>w'. normalizer (PyEnum GROUP) c w = Inr (Lib (GroupNorm NUM_GROUPS (nat c)) (next_addr w), w'))) \<and>
   (c mod 8 \<noteq> 0 \<longrightarrow>
      normalizer (PyEnum GROUP) c w =
        Inl (Raised Library ValueError ''num_channels must be divisible by num_groups'')) \<and>
   (\<forall>e. normalizer (PyEnum m) c w = Inl e \<longrightarrow> raised_by e = Library) \<and>
   NUM_GROUPS = 8"
  by (cases m) (auto simp: ctor_defs)

theorem normalizer_enumeration_witness:
  "(\<exists>w'. normalizer (PyEnum BATCH) 16 empty_world = Inr (Lib (BatchNorm2d 16) 0, w')) \<and>
   (\<exists>w'. normalizer (PyEnum LAYER) 16 empty_world = Inr (Lib (GroupNorm 1 16) 0, w')) \<and>
   (\<exists>w'. normalizer (PyEnum GROUP) 16 empty_world = Inr (Lib (GroupNorm 8 16) 0, w')) \<and>
   normalizer (PyEnum GROUP) 12 empty_world =
     Inl (Raised Library ValueError ''num_channels must be divisible by num_groups'')"
proof -
  have h: "(0::int) \<le> 16" "(0::int) \<le> 16 \<and> (16::int) mod 8 = 0" "(12::int) mod 8 \<noteq> 0"
    by simp_all
  have n: "nat 16 = 16" "next_addr empty_world = 0"
    by (simp_all add: empty_world_def)
  from normalizer_enumeration [of 16 empty_world LAYER] h(1,2)
  have a: "(\<exists>w'. normalizer (PyEnum BATCH) 16 empty_world =
              Inr (Lib (BatchNorm2d (nat 16)) (next_addr empty_world), w')) \<and>
           (\<exists>w'. normalizer (PyEnum LAYER) 16 empty_world =
              Inr (Lib (GroupNorm 1 (nat 16)) (next_addr empty_world), w')) \<and>
           (\<exists>w'. normalizer (PyEnum GROUP) 16 empty_world =
              Inr (Lib (GroupNorm NUM_GROUPS (nat 16)) (next_addr empty_world), w')) \<and>
           NUM_GROUPS = 8"
    by blast
  from normalizer_enumeration [of 12 empty_world GROUP] h(3)
  have b: "normalizer (PyEnum GROUP) 12 empty_world =
     Inl (Raised Library ValueError ''num_channels must be divisible by num_groups'')"
    by blast
  from a b show ?thesis
    unfolding n by metis
qed

text \<open>
  The claim as worded fails: \<open>normalizer(GROUP, 10)\<close> raises, since 8 does not
  divide 10.
\<close>

theorem normalizer_group_counterexample:
  "normalizer (PyEnum GROUP) 10 empty_world =
     Inl (Raised Library ValueError ''num_channels must be divisible by num_groups'')"
  by (simp add: ctor_defs)

text \<open>
  Claim C8. \<open>session_6_Model()\<close> and \<open>Session_7_Model_1()\<close> always raise
  \<open>NameError\<close> for \<^verbatim>\<open>dropout_value\<close>, from any state of the interpreter, while
  \<open>Model\<close> (for each member of \<open>NormalizationMethod\<close>), \<open>Session_7_Model_2\<close> and
  \<open>Session_7_Model_3\<close> return an object.
\<close>

theorem construction_outcomes:
  "session_6_Model_init K w = Inl (Raised ThisFile NameError ''dropout_value'') \<and>
   Session_7_Model_1_init K w = Inl (Raised ThisFile NameError ''dropout_value'') \<and>
   (\<exists>self w'. Model_init K (PyEnum norm_method) w = Inr (self, w')) \<and>
   (\<exists>self w'. Session_7_Model_2_init K w = Inr (self, w')) \<and>
   (\<exists>self w'. Session_7_Model_3_init K w = Inr (self, w'))"
proof -
  have a: "session_6_Model_init K w = Inl (Raised ThisFile NameError ''dropout_value'')"
    by (simp add: session_6_Model_init_def ctor_defs)
  have b: "Session_7_Model_1_init K w = Inl (Raised ThisFile NameError ''dropout_value'')"
    by (simp add: Session_7_Model_1_init_def ctor_defs)
  have c: "\<exists>self w'. Model_init K (PyEnum norm_method) w = Inr (self, w')"
    by (cases norm_method) (simp_all add: Model_init_def ctor_defs)
  have d: "\<exists>self w'. Session_7_Model_2_init K w = Inr (self, w')"
    by (simp add: Session_7_Model_2_init_def ctor_defs)
  have e: "\<exists>self w'. Session_7_Model_3_init K w = Inr (self, w')"
    by (simp add: Session_7_Model_3_init_def ctor_defs)
  from a b c d e show ?thesis by blast
qed

section \<open>Forward passes and their shapes\<close>

lemma bindE_Inl [simp]: "bindE (Inl e) f = Inl e"
  by (simp add: bindE_def)

lemma bindE_Inr [simp]: "bindE (Inr v) f = f v"
  by (simp add: bindE_def)

lemma bindE_assoc: "bindE (bindE r f) g = bindE r (\<lambda>v. bindE (f v) g)"
  by (cases r) simp_all

lemma bindE_eq_Inr: "bindE r f = Inr b \<longleftrightarrow> (\<exists>v. r = Inr v \<and> f v = Inr b)"
  by (cases r) simp_all

lemma bindE_eq_Inl: "bindE r f = Inl e \<longleftrightarrow> r = Inl e \<or> (\<exists>v. r = Inr v \<and> f v = Inl e)"
  by (cases r) simp_all

lemma forward_seq_Cons_bind:
  "forward_seq K tr (m # ms) w x = bindE (forward K tr m w x) (\<lambda>(y, w'). forward_seq K tr ms w' y)"
  by (simp add: bindE_def)

lemma lib_forward_shape:
  "map_sum (\<lambda>e. e) (\<lambda>r. (shape (fst r), dtype (fst r))) (lib_forward K tr l a w x) =
   map_sum (\<lambda>e. e) (\<lambda>s. (s, dtype x)) (lib_shape tr l (shape x) (dtype x))"
  by (simp add: lib_forward_def split: sum.splits)

lemma forward_shape_agree:
  "map_sum (\<lambda>e. e) (\<lambda>r. (shape (fst r), dtype (fst r))) (forward K tr m w x) =
     map_sum (\<lambda>e. e) (\<lambda>s. (s, dtype x)) (forward_shape tr m (shape x) (dtype x))"
  "map_sum (\<lambda>e. e) (\<lambda>r. (shape (fst r), dtype (fst r))) (forward_seq K tr ms w x) =
     map_sum (\<lambda>e. e) (\<lambda>s. (s, dtype x)) (forward_seq_shape tr ms (shape x) (dtype x))"
proof (induction K tr m w x and K tr ms w x rule: forward_forward_seq.induct)
  case (1 K tr l a w x)
  then show ?case by (simp add: lib_forward_shape)
next
  case (6 K tr m ms w x)
  show ?case
  proof (cases "forward K tr m w x")
    case (Inl e)
    with "6.IH"(1) show ?thesis by (cases "forward_shape tr m (shape x) (dtype x)") simp_all
  next
    case (Inr r)
    obtain y w' where r: "r = (y, w')" by (cases r)
    from "6.IH"(1) Inr r have s: "forward_shape tr m (shape x) (dtype x) = Inr (shape y)" "dtype y = dtype x"
      by (cases "forward_shape tr m (shape x) (dtype x)"; simp)+
    from "6.IH"(2)[OF Inr r[symmetric]] s Inr r show ?thesis by simp
  qed
qed simp_all

lemma lib_effect_calls: "calls (lib_effect K tr l a x w) = calls w"
  by (cases l) simp_all

lemma forward_calls:
  "forward K tr m w x = Inr (y, w') \<Longrightarrow> calls w' = calls w @ ops m"
  "forward_seq K tr ms w x = Inr (y, w') \<Longrightarrow> calls w' = calls w @ ops_seq ms"
proof (induction K tr m w x and K tr ms w x arbitrary: y w' and y w' rule: forward_forward_seq.induct)
  case (1 K tr l a w x)
  then show ?case
    by (auto simp: lib_forward_def log_call_def lib_effect_calls split: sum.splits)
next
  case (6 K tr m ms w x)
  from "6.prems" obtain y1 w1 where a: "forward K tr m w x = Inr (y1, w1)"
    and b: "forward_seq K tr ms w1 y1 = Inr (y, w')"
    by (auto split: sum.splits)
  from "6.IH"(1)[OF a] "6.IH"(2)[OF a refl b] show ?case by simp
qed simp_all

lemma Model_forward_composition:
  "Model_forward K tr self w x =
     composition K tr
       [conv_block1 self, trans_block1 self, conv_block2 self, trans_block2 self,
        conv_block3 self, trans_block3 self, gap self, out self] 1 w x"
  by (simp add: Model_forward_def composition_def forward_seq_Cons_bind bindE_assoc case_prod_unfold
      del: forward.simps forward_seq.simps(2))

lemma forward_seq_Inr_shape:
  assumes "forward_seq K tr ms w x = Inr (y, w')"
  shows "forward_seq_shape tr ms (shape x) (dtype x) = Inr (shape y)" and "dtype y = dtype x"
  using forward_shape_agree(2) [of K tr ms w x] assms
  by (cases "forward_seq_shape tr ms (shape x) (dtype x)"; simp)+

lemma forward_seq_Inl_shape:
  assumes "forward_seq K tr ms w x = Inl e"
  shows "forward_seq_shape tr ms (shape x) (dtype x) = Inl e"
  using forward_shape_agree(2) [of K tr ms w x] assms
  by (cases "forward_seq_shape tr ms (shape x) (dtype x)"; simp)

lemma view_same_shape:
  "map_sum (\<lambda>e. e) shape (view x c) = map_sum (\<lambda>e. e) shape (view \<lparr>shape = shape x, dtype = d, elems = f\<rparr> c)"
  by (simp add: view_def Let_def)

lemma view_Inr: "view x c = Inr z \<Longrightarrow> dtype z = dtype x \<and> elems z = elems x"
  by (auto simp: view_def Let_def split: if_splits)

lemma log_softmax_same_shape:
  "shape z' = shape z \<Longrightarrow> dtype z' = dtype z \<Longrightarrow>
   map_sum (\<lambda>e. e) shape (log_softmax z' axis) = map_sum (\<lambda>e. e) shape (log_softmax z axis)"
  by (simp add: log_softmax_def Let_def)

lemma log_softmax_Inr: "log_softmax z axis = Inr y \<Longrightarrow> shape y = shape z \<and> dtype y = dtype z"
  by (auto simp: log_softmax_def Let_def split: if_splits)

lemma composition_shape_agree:
  "map_sum (\<lambda>e. e) (\<lambda>r. (shape (fst r), dtype (fst r))) (composition K tr ms axis w x) =
   map_sum (\<lambda>e. e) (\<lambda>s. (s, dtype x)) (composition_shape tr ms axis (shape x) (dtype x))"
proof (cases "forward_seq K tr ms w x")
  case (Inl e)
  from forward_seq_Inl_shape [OF Inl] Inl show ?thesis
    by (simp add: composition_def composition_shape_def)
next
  case (Inr r)
  obtain y w1 where r: "r = (y, w1)" by (cases r)
  note s = forward_seq_Inr_shape [OF Inr [unfolded r]]
  show ?thesis
  proof (cases "view y 10")
    case (Inl e)
    with view_same_shape [of y 10 "dtype x" "\<lambda>k. 0"] Inr r s show ?thesis
      by (cases "view \<lparr>shape = shape y, dtype = dtype x, elems = \<lambda>k. 0\<rparr> 10")
         (simp_all add: composition_def composition_shape_def call_view_def)
  next
    case (Inr z)
    with view_same_shape [of y 10 "dtype x" "\<lambda>k. 0"]
    obtain z' where z': "view \<lparr>shape = shape y, dtype = dtype x, elems = \<lambda>k. 0\<rparr> 10 = Inr z'"
      "shape z' = shape z"
      by (cases "view \<lparr>shape = shape y, dtype = dtype x, elems = \<lambda>k. 0\<rparr> 10") simp_all
    from view_Inr [OF Inr] view_Inr [OF z'(1)] s have d: "dtype z' = dtype z" "dtype z = dtype x"
      by simp_all
    from log_softmax_same_shape [OF z'(2) d(1), of axis] show ?thesis
      using \<open>forward_seq K tr ms w x = Inr r\<close> r s Inr z' d
      by (cases "log_softmax z axis"; cases "log_softmax z' axis")
         (auto simp: composition_def composition_shape_def call_view_def call_log_softmax_def
               dest: log_softmax_Inr)
  qed
qed

lemma instance_forward_composition:
  "instance_forward K tr inst w x = composition K tr (blocks inst) (softmax_dim inst) w x"
proof (cases inst)
  case (Model_instance self)
  then show ?thesis by (simp add: Model_forward_composition)
next
  case (session_6_Model_instance self)
  then show ?thesis
    by (simp add: session_6_Model_forward_def composition_def forward_seq_Cons_bind bindE_assoc
        case_prod_unfold del: forward.simps forward_seq.simps(2))
next
  case (Session_7_Model_1_instance self)
  then show ?thesis
    by (simp add: Session_7_Model_1_forward_def composition_def forward_seq_Cons_bind bindE_assoc
        case_prod_unfold del: forward.simps forward_seq.simps(2))
next
  case (Session_7_Model_2_instance self)
  then show ?thesis
    by (simp add: Session_7_Model_2_forward_def composition_def forward_seq_Cons_bind bindE_assoc
        case_prod_unfold del: forward.simps forward_seq.simps(2))
next
  case (Session_7_Model_3_instance self)
  then show ?thesis
    by (simp add: Session_7_Model_3_forward_def composition_def forward_seq_Cons_bind bindE_assoc
        case_prod_unfold del: forward.simps forward_seq.simps(2))
qed

lemma instance_forward_shape:
  "map_sum (\<lambda>e. e) (\<lambda>r. (shape (fst r), dtype (fst r))) (instance_forward K tr inst w x) =
   map_sum (\<lambda>e. e) (\<lambda>s. (s, dtype x))
     (composition_shape tr (blocks inst) (softmax_dim inst) (shape x) (dtype x))"
  by (simp add: instance_forward_composition composition_shape_agree)

lemma instance_forward_Inr_shape:
  assumes "instance_forward K tr inst w x = Inr (y, w')"
  shows "composition_shape tr (blocks inst) (softmax_dim inst) (shape x) (dtype x) = Inr (shape y)"
    and "dtype y = dtype x"
  using instance_forward_shape [of K tr inst w x] assms
  by (cases "composition_shape tr (blocks inst) (softmax_dim inst) (shape x) (dtype x)"; simp)+

lemma instance_forward_shape_Inr:
  assumes "composition_shape tr (blocks inst) (softmax_dim inst) (shape x) (dtype x) = Inr s"
  shows "\<exists>y w'. instance_forward K tr inst w x = Inr (y, w') \<and> shape y = s \<and> dtype y = dtype x"
  using instance_forward_shape [of K tr inst w x] assms
  by (cases "instance_forward K tr inst w x") auto

lemma instance_forward_Inl_iff:
  "instance_forward K tr inst w x = Inl e \<longleftrightarrow>
   composition_shape tr (blocks inst) (softmax_dim inst) (shape x) (dtype x) = Inl e"
  using instance_forward_shape [of K tr inst w x]
  by (cases "instance_forward K tr inst w x";
      cases "composition_shape tr (blocks inst) (softmax_dim inst) (shape x) (dtype x)") auto

lemma s72_shapes:
  assumes "Session_7_Model_2_init K w = Inr (self, w')" and "0 < n"
  shows "composition_shape tr (blocks (Session_7_Model_2_instance self)) (- 1) [n, 1, 28, 28] Float32
           = Inr [n, 10]"
    and "composition_shape tr (blocks (Session_7_Model_2_instance self)) (- 1) [n, 1, 30, 30] Float32
           = Inr [4 * n, 10]"
  using assms
  by (auto simp: Session_7_Model_2_init_def ctor_defs composition_shape_def pool_shape_def
      view_def log_softmax_def)

lemma composition_calls:
  assumes "composition K tr ms axis w x = Inr (y, w')"
  shows "calls w' = calls w @ ops_seq ms @ [View [- 1, 10], LogSoftmax axis]"
proof -
  from assms obtain y1 w1 z where a: "forward_seq K tr ms w x = Inr (y1, w1)"
    and b: "view y1 10 = Inr z" and c: "log_softmax z axis = Inr y"
    and w': "w' = log_call (LogSoftmax axis) (log_call (View [- 1, 10]) w1)"
    by (auto simp: composition_def call_view_def call_log_softmax_def bindE_eq_Inr)
  from forward_calls(2) [OF a] w' show ?thesis
    by (simp add: log_call_def)
qed

lemma s72_example:
  obtains self w1 where "Session_7_Model_2_init zero_numerics empty_world = Inr (self, w1)"
    and "construct zero_numerics New_Session_7_Model_2 empty_world = Inr (Session_7_Model_2_instance self, w1)"
proof -
  have "\<exists>self w1. Session_7_Model_2_init zero_numerics empty_world = Inr (self, w1)"
    by (simp add: Session_7_Model_2_init_def ctor_defs)
  then obtain self w1 where "Session_7_Model_2_init zero_numerics empty_world = Inr (self, w1)"
    by blast
  then show thesis by (intro that [of self w1]) simp_all
qed

text \<open>
  Claim C3. The \<^verbatim>\<open>forward\<close> of every class is the composition of its blocks in order,
  followed by \<^verbatim>\<open>view(-1, 10)\<close> and \<^verbatim>\<open>log_softmax\<close>; for \<open>Model\<close> the blocks are
  \<open>conv_block1\<close>, \<open>trans_block1\<close>, \<open>conv_block2\<close>, \<open>trans_block2\<close>, \<open>conv_block3\<close>,
  \<open>trans_block3\<close>, \<open>gap\<close>, \<open>out\<close> and the dimension is 1. A call that returns has
  applied exactly the library operations of these blocks, in order, whatever the input;
  and two inputs of the same shape and element type give the same log of operations, or
  the same exception.
\<close>

theorem forward_is_composition:
  "instance_forward K tr inst w x = composition K tr (blocks inst) (softmax_dim inst) w x \<and>
   Model_forward K tr self w x =
     composition K tr
       [conv_block1 self, trans_block1 self, conv_block2 self, trans_block2 self,
        conv_block3 self, trans_block3 self, gap self, out self] 1 w x \<and>
   (\<forall>y w'. instance_forward K tr inst w x = Inr (y, w') \<longrightarrow>
      calls w' = calls w @ ops_seq (blocks inst) @ [View [- 1, 10], LogSoftmax (softmax_dim inst)]) \<and>
   (\<forall>x'. shape x' = shape x \<and> dtype x' = dtype x \<longrightarrow>
      map_sum (\<lambda>e. e) (\<lambda>r. calls (snd r)) (instance_forward K tr inst w x') =
      map_sum (\<lambda>e. e) (\<lambda>r. calls (snd r)) (instance_forward K tr inst w x))"
proof (intro conjI allI impI)
  show "instance_forward K tr inst w x = composition K tr (blocks inst) (softmax_dim inst) w x"
    by (rule instance_forward_composition)
  show "Model_forward K tr self w x =
     composition K tr
       [conv_block1 self, trans_block1 self, conv_block2 self, trans_block2 self,
        conv_block3 self, trans_block3 self, gap self, out self] 1 w x"
    by (rule Model_forward_composition)
next
  fix y w' assume "instance_forward K tr inst w x = Inr (y, w')"
  then show "calls w' = calls w @ ops_seq (blocks inst) @ [View [- 1, 10], LogSoftmax (softmax_dim inst)]"
    by (simp add: instance_forward_composition composition_calls)
next
  fix x' :: tensor assume s: "shape x' = shape x \<and> dtype x' = dtype x"
  show "map_sum (\<lambda>e. e) (\<lambda>r. calls (snd r)) (instance_forward K tr inst w x') =
      map_sum (\<lambda>e. e) (\<lambda>r. calls (snd r)) (instance_forward K tr inst w x)"
  proof (cases "instance_forward K tr inst w x")
    case (Inl e)
    then have "instance_forward K tr inst w x' = Inl e"
      using s by (simp add: instance_forward_Inl_iff)
    with Inl show ?thesis by simp
  next
    case (Inr r)
    obtain y w1 where r: "r = (y, w1)" by (cases r)
    from instance_forward_Inr_shape(1) [OF Inr [unfolded r]] s
    have "composition_shape tr (blocks inst) (softmax_dim inst) (shape x') (dtype x') = Inr (shape y)"
      by simp
    from instance_forward_shape_Inr [OF this, of K w]
    obtain y' w1' where r': "instance_forward K tr inst w x' = Inr (y', w1')" by blast
    from Inr r r' show ?thesis
      by (simp add: instance_forward_composition composition_calls)
  qed
qed

theorem forward_is_composition_witness:
  "\<exists>inst w y w'.
     construct zero_numerics New_Session_7_Model_2 empty_world = Inr (inst, w) \<and>
     instance_forward zero_numerics True inst w (filled [1, 1, 28, 28] Float32 0) = Inr (y, w') \<and>
     calls w' = calls w @ ops_seq (blocks inst) @ [View [- 1, 10], LogSoftmax (- 1)] \<and>
     map_sum (\<lambda>e. e) (\<lambda>r. calls (snd r))
       (instance_forward zero_numerics True inst w (filled [1, 1, 28, 28] Float32 1)) =
     map_sum (\<lambda>e. e) (\<lambda>r. calls (snd r))
       (instance_forward zero_numerics True inst w (filled [1, 1, 28, 28] Float32 0))"
proof -
  obtain self w where i: "Session_7_Model_2_init zero_numerics empty_world = Inr (self, w)"
    and c: "construct zero_numerics New_Session_7_Model_2 empty_world =
              Inr (Session_7_Model_2_instance self, w)"
    by (rule s72_example)
  let ?inst = "Session_7_Model_2_instance self"
  let ?x = "filled [1, 1, 28, 28] Float32 0"
  have "composition_shape True (blocks ?inst) (softmax_dim ?inst) (shape ?x) (dtype ?x) = Inr [1, 10]"
    using s72_shapes(1) [OF i, of 1 True] by (simp add: filled_def)
  from instance_forward_shape_Inr [OF this, of zero_numerics w]
  obtain y w' where f: "instance_forward zero_numerics True ?inst w ?x = Inr (y, w')"
    by blast
  have s: "shape (filled [1, 1, 28, 28] Float32 1) = shape ?x \<and>
           dtype (filled [1, 1, 28, 28] Float32 1) = dtype ?x"
    by (simp add: filled_def)
  from forward_is_composition [of zero_numerics True ?inst w ?x] f s
  have "calls w' = calls w @ ops_seq (blocks ?inst) @ [View [- 1, 10], LogSoftmax (softmax_dim ?inst)]"
    and "map_sum (\<lambda>e. e) (\<lambda>r. calls (snd r))
       (instance_forward zero_numerics True ?inst w (filled [1, 1, 28, 28] Float32 1)) =
     map_sum (\<lambda>e. e) (\<lambda>r. calls (snd r)) (instance_forward zero_numerics True ?inst w ?x)"
    by blast+
  with c f show ?thesis by auto
qed

text \<open>
  Claim C5. For an instance of any class, two inputs of the same shape and element type
  on which \<^verbatim>\<open>forward\<close> returns give outputs of the same shape and element type,
  whatever the entries, the numerics and the state of the store.
\<close>

theorem output_signature_function_of_input_signature:
  assumes "shape x' = shape x" and "dtype x' = dtype x"
    and "instance_forward K tr inst w x = Inr (y, w1)"
    and "instance_forward K' tr inst w' x' = Inr (y', w1')"
  shows "shape y' = shape y \<and> dtype y' = dtype y"
  using instance_forward_Inr_shape [OF assms(3)] instance_forward_Inr_shape [OF assms(4)] assms(1,2)
  by simp

theorem output_signature_function_of_input_signature_witness:
  "\<exists>inst w y w1 y' w1'.
     construct zero_numerics New_Session_7_Model_2 empty_world = Inr (inst, w) \<and>
     instance_forward zero_numerics True inst w (filled [1, 1, 28, 28] Float32 0) = Inr (y, w1) \<and>
     instance_forward zero_numerics True inst w1 (filled [1, 1, 28, 28] Float32 1) = Inr (y', w1') \<and>
     shape y' = shape y \<and> dtype y' = dtype y \<and> shape y = [1, 10] \<and> dtype y = Float32"
proof -
  obtain self w where i: "Session_7_Model_2_init zero_numerics empty_world = Inr (self, w)"
    and c: "construct zero_numerics New_Session_7_Model_2 empty_world =
              Inr (Session_7_Model_2_instance self, w)"
    by (rule s72_example)
  let ?inst = "Session_7_Model_2_instance self"
  let ?x = "filled [1, 1, 28, 28] Float32 0"
  let ?x' = "filled [1, 1, 28, 28] Float32 1"
  have a: "composition_shape True (blocks ?inst) (softmax_dim ?inst) (shape ?x) (dtype ?x) = Inr [1, 10]"
    using s72_shapes(1) [OF i, of 1 True] by (simp add: filled_def)
  have b: "composition_shape True (blocks ?inst) (softmax_dim ?inst) (shape ?x') (dtype ?x') = Inr [1, 10]"
    using s72_shapes(1) [OF i, of 1 True] by (simp add: filled_def)
  from instance_forward_shape_Inr [OF a, of zero_numerics w]
  obtain y w1 where f: "instance_forward zero_numerics True ?inst w ?x = Inr (y, w1)"
    and y: "shape y = [1, 10]" "dtype y = dtype ?x"
    by blast
  from instance_forward_shape_Inr [OF b, of zero_numerics w1]
  obtain y' w1' where f': "instance_forward zero_numerics True ?inst w1 ?x' = Inr (y', w1')"
    by blast
  have "shape ?x' = shape ?x" "dtype ?x' = dtype ?x"
    by (simp_all add: filled_def)
  from output_signature_function_of_input_signature [OF this f f']
  have "shape y' = shape y \<and> dtype y' = dtype y" .
  with c f f' y show ?thesis by (auto simp: filled_def)
qed

section \<open>Output shapes\<close>






lemma BatchNorm2d_shape_ok:
  "2 \<le> h \<Longrightarrow> lib_shape tr (BatchNorm2d c) [n, c, h, w] d = Inr [n, c, h, w]"
  by auto

lemma GroupNorm_shape_ok:
  "0 < g \<Longrightarrow> 2 \<le> h \<Longrightarrow> lib_shape tr (GroupNorm g c) [n, c, h, w] d = Inr [n, c, h, w]"
  by auto

lemma ConvLayer_shape_ok:
  assumes "lib_shape tr nl [n, co, h, w] Float32 = Inr [n, co, h, w]" and "0 < h" and "0 < w"
  shows "forward_shape tr
           (ConvLayer (Sequential [Lib (Conv2d ci co (3, 3) (Suc 0)) a1, Lib nl a2, Lib ReLU a3, Lib (Dropout p) a4]))
           [n, ci, h, w] Float32 = Inr [n, co, h, w]"
  using assms by simp

lemma TransBlock_shape_ok:
  assumes "2 \<le> h" and "2 \<le> w"
  shows "forward_shape tr
           (TransBlock (Sequential [Lib (Conv2d ci co (Suc 0, Suc 0) 0) a1, Lib (MaxPool2d (2, 2) 2) a2]))
           [n, ci, h, w] Float32 = Inr [n, co, h div 2, w div 2]"
proof -
  from assms have "(h - 2) div 2 + 1 = h div 2" "(w - 2) div 2 + 1 = w div 2" by arith+
  with assms show ?thesis by (simp add: pool_shape_def)
qed

lemma norm_layer_shape_ok:
  "2 \<le> h \<Longrightarrow>
   lib_shape tr (case nm of BATCH \<Rightarrow> BatchNorm2d c | LAYER \<Rightarrow> GroupNorm 1 c | GROUP \<Rightarrow> GroupNorm 8 c)
     [n, c, h, w] d = Inr [n, c, h, w]"
  by (cases nm) auto

lemma Model_init_structure:
  assumes "Model_init K (PyEnum nm) w0 = Inr (self, w1)"
  shows "\<exists>nl p (a :: nat \<Rightarrow> nat).
    nl = (\<lambda>c. case nm of BATCH \<Rightarrow> BatchNorm2d c | LAYER \<Rightarrow> GroupNorm 1 c | GROUP \<Rightarrow> GroupNorm 8 c) \<and>
    conv_block1 self = Sequential
      [ConvLayer (Sequential [Lib (Conv2d 3 16 (3, 3) 1) (a 0), Lib (nl 16) (a 1), Lib ReLU (a 2), Lib (Dropout p) (a 3)]),
       ConvLayer (Sequential [Lib (Conv2d 16 32 (3, 3) 1) (a 4), Lib (nl 32) (a 5), Lib ReLU (a 6), Lib (Dropout p) (a 7)])] \<and>
    trans_block1 self = TransBlock (Sequential [Lib (Conv2d 32 16 (1, 1) 0) (a 8), Lib (MaxPool2d (2, 2) 2) (a 9)]) \<and>
    conv_block2 self = Sequential
      [ConvLayer (Sequential [Lib (Conv2d 16 16 (3, 3) 1) (a 10), Lib (nl 16) (a 11), Lib ReLU (a 12), Lib (Dropout p) (a 13)]),
       ConvLayer (Sequential [Lib (Conv2d 16 16 (3, 3) 1) (a 14), Lib (nl 16) (a 15), Lib ReLU (a 16), Lib (Dropout p) (a 17)]),
       ConvLayer (Sequential [Lib (Conv2d 16 32 (3, 3) 1) (a 18), Lib (nl 32) (a 19), Lib ReLU (a 20), Lib (Dropout p) (a 21)])] \<and>
    trans_block2 self = TransBlock (Sequential [Lib (Conv2d 32 16 (1, 1) 0) (a 22), Lib (MaxPool2d (2, 2) 2) (a 23)]) \<and>
    conv_block3 self = Sequential
      [ConvLayer (Sequential [Lib (Conv2d 16 16 (3, 3) 1) (a 24), Lib (nl 16) (a 25), Lib ReLU (a 26), Lib (Dropout p) (a 27)]),
       ConvLayer (Sequential [Lib (Conv2d 16 16 (3, 3) 1) (a 28), Lib (nl 16) (a 29), Lib ReLU (a 30), Lib (Dropout p) (a 31)]),
       ConvLayer (Sequential [Lib (Conv2d 16 32 (3, 3) 1) (a 32), Lib (nl 32) (a 33), Lib ReLU (a 34), Lib (Dropout p) (a 35)])] \<and>
    trans_block3 self = TransBlock (Sequential [Lib (Conv2d 32 16 (1, 1) 0) (a 36), Lib (MaxPool2d (2, 2) 2) (a 37)]) \<and>
    gap self = Lib (AdaptiveAvgPool2d 1) (a 38) \<and>
    out self = Lib (Conv2d 16 10 (1, 1) 0) (a 39)"
  apply (rule exI [where x = "\<lambda>c. case nm of BATCH \<Rightarrow> BatchNorm2d c | LAYER \<Rightarrow> GroupNorm 1 c | GROUP \<Rightarrow> GroupNorm 8 c"])
  apply (rule exI [where x = "5 / 100"])
  apply (rule exI [where x = "\<lambda>k. next_addr w0 + k"])
  apply (insert assms)
  apply (cases nm)
    apply (auto simp: Model_init_def ctor_defs)
  done

lemma forward_shape_Inr_ex:
  assumes "forward_shape tr m (shape x) (dtype x) = Inr s"
  shows "\<exists>y w'. forward K tr m w x = Inr (y, w') \<and> shape y = s \<and> dtype y = dtype x"
  using forward_shape_agree(1) [of K tr m w x] assms
  by (cases "forward K tr m w x") auto

lemma forward_shape_all:
  assumes "forward_shape tr m s Float32 = Inr s'"
  shows "\<forall>w u. shape u = s \<and> dtype u = Float32 \<longrightarrow>
           (\<exists>y w'. forward K tr m w u = Inr (y, w') \<and> shape y = s' \<and> dtype y = Float32)"
proof (intro allI impI)
  fix w and u :: tensor
  assume u: "shape u = s \<and> dtype u = Float32"
  with assms have "forward_shape tr m (shape u) (dtype u) = Inr s'" by simp
  from forward_shape_Inr_ex [OF this, of K w] u
  show "\<exists>y w'. forward K tr m w u = Inr (y, w') \<and> shape y = s' \<and> dtype y = Float32"
    by auto
qed

lemma Model_init_enum_succeeds:
  "\<exists>self w'. Model_init K (PyEnum nm) w = Inr (self, w')"
  by (cases nm) (simp_all add: Model_init_def ctor_defs)


text \<open>
  Claim C4, as the code has it. For a \<open>Model\<close> built with any member of
  \<open>NormalizationMethod\<close> and a \<open>Float32\<close> input of shape \<open>(N, 3, H, W)\<close> with
  \<open>N \<ge> 1\<close>, \<open>H \<ge> 8\<close> and \<open>W \<ge> 8\<close>, every block accepts the shape it receives: the
  convolution blocks keep the spatial size, each \<open>TransBlock\<close> halves it, the third
  halving leaves at least 1, the pooling gives \<open>1 \<times> 1\<close> and \<open>out\<close> gives ten channels;
  \<^verbatim>\<open>forward\<close> returns a tensor of shape \<open>(N, 10)\<close>, in training and in evaluation mode.
  For an input of that shape with another element type the first convolution raises a
  \<open>RuntimeError\<close>.
\<close>

theorem Model_forward_shapes:
  assumes "Model_init K0 (PyEnum norm_method) w0 = Inr (self, w1)"
    and "shape x = [N, 3, H, W]" and "1 \<le> N" and "8 \<le> H" and "8 \<le> W"
  shows
   "(\<forall>w u. shape u = [N, 3, H, W] \<and> dtype u = Float32 \<longrightarrow>
       (\<exists>y w'. forward K tr (conv_block1 self) w u = Inr (y, w') \<and> shape y = [N, 32, H, W] \<and> dtype y = Float32)) \<and>
    (\<forall>w u. shape u = [N, 32, H, W] \<and> dtype u = Float32 \<longrightarrow>
       (\<exists>y w'. forward K tr (trans_block1 self) w u = Inr (y, w') \<and> shape y = [N, 16, H div 2, W div 2] \<and> dtype y = Float32)) \<and>
    (\<forall>w u. shape u = [N, 16, H div 2, W div 2] \<and> dtype u = Float32 \<longrightarrow>
       (\<exists>y w'. forward K tr (conv_block2 self) w u = Inr (y, w') \<and> shape y = [N, 32, H div 2, W div 2] \<and> dtype y = Float32)) \<and>
    (\<forall>w u. shape u = [N, 32, H div 2, W div 2] \<and> dtype u = Float32 \<longrightarrow>
       (\<exists>y w'. forward K tr (trans_block2 self) w u = Inr (y, w') \<and> shape y = [N, 16, H div 4, W div 4] \<and> dtype y = Float32)) \<and>
    (\<forall>w u. shape u = [N, 16, H div 4, W div 4] \<and> dtype u = Float32 \<longrightarrow>
       (\<exists>y w'. forward K tr (conv_block3 self) w u = Inr (y, w') \<and> shape y = [N, 32, H div 4, W div 4] \<and> dtype y = Float32)) \<and>
    (\<forall>w u. shape u = [N, 32, H div 4, W div 4] \<and> dtype u = Float32 \<longrightarrow>
       (\<exists>y w'. forward K tr (trans_block3 self) w u = Inr (y, w') \<and> shape y = [N, 16, H div 8, W div 8] \<and> dtype y = Float32)) \<and>
    (\<forall>w u. shape u = [N, 16, H div 8, W div 8] \<and> dtype u = Float32 \<longrightarrow>
       (\<exists>y w'. forward K tr (gap self) w u = Inr (y, w') \<and> shape y = [N, 16, 1, 1] \<and> dtype y = Float32)) \<and>
    (\<forall>w u. shape u = [N, 16, 1, 1] \<and> dtype u = Float32 \<longrightarrow>
       (\<exists>y w'. forward K tr (out self) w u = Inr (y, w') \<and> shape y = [N, 10, 1, 1] \<and> dtype y = Float32)) \<and>
    1 \<le> H div 8 \<and> 1 \<le> W div 8 \<and>
    (dtype x = Float32 \<longrightarrow>
       (\<exists>y w'. Model_forward K tr self w x = Inr (y, w') \<and> shape y = [N, 10] \<and> dtype y = Float32)) \<and>
    (dtype x \<noteq> Float32 \<longrightarrow>
       (\<exists>msg. Model_forward K tr self w x = Inl (Raised Library RuntimeError msg)))"
proof -
  from Model_init_structure [OF assms(1)] obtain nl p and a :: "nat \<Rightarrow> nat" where
    nl: "nl = (\<lambda>c. case norm_method of BATCH \<Rightarrow> BatchNorm2d c | LAYER \<Rightarrow> GroupNorm 1 c
                 | GROUP \<Rightarrow> GroupNorm 8 c)"
    and st: "conv_block1 self = Sequential
      [ConvLayer (Sequential [Lib (Conv2d 3 16 (3, 3) 1) (a 0), Lib (nl 16) (a 1), Lib ReLU (a 2), Lib (Dropout p) (a 3)]),
       ConvLayer (Sequential [Lib (Conv2d 16 32 (3, 3) 1) (a 4), Lib (nl 32) (a 5), Lib ReLU (a 6), Lib (Dropout p) (a 7)])]"
    "trans_block1 self = TransBlock (Sequential [Lib (Conv2d 32 16 (1, 1) 0) (a 8), Lib (MaxPool2d (2, 2) 2) (a 9)])"
    "conv_block2 self = Sequential
      [ConvLayer (Sequential [Lib (Conv2d 16 16 (3, 3) 1) (a 10), Lib (nl 16) (a 11), Lib ReLU (a 12), Lib (Dropout p) (a 13)]),
       ConvLayer (Sequential [Lib (Conv2d 16 16 (3, 3) 1) (a 14), Lib (nl 16) (a 15), Lib ReLU (a 16), Lib (Dropout p) (a 17)]),
       ConvLayer (Sequential [Lib (Conv2d 16 32 (3, 3) 1) (a 18), Lib (nl 32) (a 19), Lib ReLU (a 20), Lib (Dropout p) (a 21)])]"
    "trans_block2 self = TransBlock (Sequential [Lib (Conv2d 32 16 (1, 1) 0) (a 22), Lib (MaxPool2d (2, 2) 2) (a 23)])"
    "conv_block3 self = Sequential
      [ConvLayer (Sequential [Lib (Conv2d 16 16 (3, 3) 1) (a 24), Lib (nl 16) (a 25), Lib ReLU (a 26), Lib (Dropout p) (a 27)]),
       ConvLayer (Sequential [Lib (Conv2d 16 16 (3, 3) 1) (a 28), Lib (nl 16) (a 29), Lib ReLU (a 30), Lib (Dropout p) (a 31)]),
       ConvLayer (Sequential [Lib (Conv2d 16 32 (3, 3) 1) (a 32), Lib (nl 32) (a 33), Lib ReLU (a 34), Lib (Dropout p) (a 35)])]"
    "trans_block3 self = TransBlock (Sequential [Lib (Conv2d 32 16 (1, 1) 0) (a 36), Lib (MaxPool2d (2, 2) 2) (a 37)])"
    "gap self = Lib (AdaptiveAvgPool2d 1) (a 38)"
    "out self = Lib (Conv2d 16 10 (1, 1) 0) (a 39)"
    by blast
  have d: "H div 2 div 2 = H div 4" "W div 2 div 2 = W div 4"
    "H div 4 div 2 = H div 8" "W div 4 div 2 = W div 8"
    by arith+
  from assms(4,5) have g: "2 \<le> H" "2 \<le> W" "2 \<le> H div 2" "2 \<le> W div 2"
    "2 \<le> H div 4" "2 \<le> W div 4" "0 < H" "0 < W" "0 < H div 2" "0 < W div 2"
    "0 < H div 4" "0 < W div 4" "0 < H div 8" "0 < W div 8"
    by arith+
  note st = st [unfolded nl]
  note nok = norm_layer_shape_ok [where nm = norm_method]
  have b1: "forward_shape tr (conv_block1 self) [N, 3, H, W] Float32 = Inr [N, 32, H, W]"
    using g by (simp add: st d ConvLayer_shape_ok TransBlock_shape_ok nok
        del: forward_shape.simps(3,4))
  have b2: "forward_shape tr (trans_block1 self) [N, 32, H, W] Float32 = Inr [N, 16, H div 2, W div 2]"
    using g by (simp add: st d ConvLayer_shape_ok TransBlock_shape_ok nok
        del: forward_shape.simps(3,4))
  have b3: "forward_shape tr (conv_block2 self) [N, 16, H div 2, W div 2] Float32 = Inr [N, 32, H div 2, W div 2]"
    using g by (simp add: st d ConvLayer_shape_ok TransBlock_shape_ok nok
        del: forward_shape.simps(3,4))
  have b4: "forward_shape tr (trans_block2 self) [N, 32, H div 2, W div 2] Float32 = Inr [N, 16, H div 4, W div 4]"
    using g by (simp add: st d ConvLayer_shape_ok TransBlock_shape_ok nok
        del: forward_shape.simps(3,4))
  have b5: "forward_shape tr (conv_block3 self) [N, 16, H div 4, W div 4] Float32 = Inr [N, 32, H div 4, W div 4]"
    using g by (simp add: st d ConvLayer_shape_ok TransBlock_shape_ok nok
        del: forward_shape.simps(3,4))
  have b6: "forward_shape tr (trans_block3 self) [N, 32, H div 4, W div 4] Float32 = Inr [N, 16, H div 8, W div 8]"
    using g by (simp add: st d ConvLayer_shape_ok TransBlock_shape_ok nok
        del: forward_shape.simps(3,4))
  have b7: "forward_shape tr (gap self) [N, 16, H div 8, W div 8] Float32 = Inr [N, 16, 1, 1]"
    using g by (simp add: st d ConvLayer_shape_ok TransBlock_shape_ok nok
        del: forward_shape.simps(3,4))
  have b8: "forward_shape tr (out self) [N, 16, 1, 1] Float32 = Inr [N, 10, 1, 1]"
    using g by (simp add: st d ConvLayer_shape_ok TransBlock_shape_ok nok
        del: forward_shape.simps(3,4))
  note bs = b1 b2 b3 b4 b5 b6 b7 b8
  have c: "composition_shape tr (blocks (Model_instance self)) 1 [N, 3, H, W] Float32 = Inr [N, 10]"
    using assms(3) bs by (simp add: composition_shape_def view_def log_softmax_def Let_def)
  have e: "composition_shape tr (blocks (Model_instance self)) 1 [N, 3, H, W] dt =
      Inl (Raised Library RuntimeError ''Input type and weight type should be the same'')"
    if "dt \<noteq> Float32" for dt
    using that by (simp add: composition_shape_def st)
  have p1: "dtype x = Float32 \<longrightarrow>
       (\<exists>y w'. Model_forward K tr self w x = Inr (y, w') \<and> shape y = [N, 10] \<and> dtype y = Float32)"
  proof
    assume "dtype x = Float32"
    with c assms(2) have "composition_shape tr (blocks (Model_instance self))
        (softmax_dim (Model_instance self)) (shape x) (dtype x) = Inr [N, 10]"
      by simp
    from instance_forward_shape_Inr [OF this, of K w] \<open>dtype x = Float32\<close>
    show "\<exists>y w'. Model_forward K tr self w x = Inr (y, w') \<and> shape y = [N, 10] \<and> dtype y = Float32"
      by auto
  qed
  have p2: "dtype x \<noteq> Float32 \<longrightarrow>
       (\<exists>msg. Model_forward K tr self w x = Inl (Raised Library RuntimeError msg))"
  proof
    assume "dtype x \<noteq> Float32"
    from e [OF this] assms(2)
    have "Model_forward K tr self w x =
         Inl (Raised Library RuntimeError ''Input type and weight type should be the same'')"
      using instance_forward_Inl_iff [of K tr "Model_instance self" w x] by simp
    then show "\<exists>msg. Model_forward K tr self w x = Inl (Raised Library RuntimeError msg)"
      by blast
  qed
  from g have h8: "1 \<le> H div 8" and w8: "1 \<le> W div 8" by simp_all
  show ?thesis
    by (intro conjI forward_shape_all [OF b1] forward_shape_all [OF b2] forward_shape_all [OF b3]
        forward_shape_all [OF b4] forward_shape_all [OF b5] forward_shape_all [OF b6]
        forward_shape_all [OF b7] forward_shape_all [OF b8] h8 w8 p1 p2)
qed

theorem Model_forward_shapes_witness:
  "\<exists>self w1 y w'.
     Model_init zero_numerics (PyEnum BATCH) empty_world = Inr (self, w1) \<and>
     Model_forward zero_numerics True self w1 (filled [1, 3, 8, 8] Float32 0) = Inr (y, w') \<and>
     shape y = [1, 10] \<and>
     (\<exists>msg. Model_forward zero_numerics True self w1 (filled [1, 3, 8, 8] Int64 0) =
        Inl (Raised Library RuntimeError msg))"
proof -
  from Model_init_enum_succeeds [of zero_numerics BATCH empty_world]
  obtain self w1 where i: "Model_init zero_numerics (PyEnum BATCH) empty_world = Inr (self, w1)"
    by blast
  have n: "(1::nat) \<le> 1" "(8::nat) \<le> 8" by simp_all
  have a: "shape (filled [1, 3, 8, 8] Float32 0) = [1, 3, 8, 8]"
    and b: "shape (filled [1, 3, 8, 8] Int64 0) = [1, 3, 8, 8]"
    and d: "dtype (filled [1, 3, 8, 8] Float32 0) = Float32"
       "dtype (filled [1, 3, 8, 8] Int64 0) \<noteq> Float32"
    by (simp_all add: filled_def)
  from Model_forward_shapes [OF i a n(1) n(2) n(2), of zero_numerics True w1] d(1)
  obtain y w' where "Model_forward zero_numerics True self w1 (filled [1, 3, 8, 8] Float32 0) = Inr (y, w')"
    and "shape y = [1, 10]"
    by blast
  moreover from Model_forward_shapes [OF i b n(1) n(2) n(2), of zero_numerics True w1] d(2)
  have "\<exists>msg. Model_forward zero_numerics True self w1 (filled [1, 3, 8, 8] Int64 0) =
       Inl (Raised Library RuntimeError msg)"
    by blast
  ultimately show ?thesis using i by blast
qed

text \<open>
  The claim as worded fails: a \<open>Float64\<close> tensor of shape \<open>(1, 3, 8, 8)\<close> is an input
  of the stated shape on which \<^verbatim>\<open>forward\<close> raises.
\<close>

theorem float64_input_counterexample:
  "\<exists>self w1 msg.
     Model_init zero_numerics (PyEnum BATCH) empty_world = Inr (self, w1) \<and>
     shape (filled [1, 3, 8, 8] Float64 0) = [1, 3, 8, 8] \<and>
     Model_forward zero_numerics True self w1 (filled [1, 3, 8, 8] Float64 0) =
       Inl (Raised Library RuntimeError msg)"
proof -
  from Model_init_enum_succeeds [of zero_numerics BATCH empty_world]
  obtain self w1 where i: "Model_init zero_numerics (PyEnum BATCH) empty_world = Inr (self, w1)"
    by blast
  let ?x = "filled [1, 3, 8, 8] Float64 0"
  have s: "shape ?x = [1, 3, 8, 8]" "dtype ?x = Float64" by (simp_all add: filled_def)
  have "\<exists>msg. composition_shape True (blocks (Model_instance self)) (softmax_dim (Model_instance self))
      (shape ?x) (dtype ?x) = Inl (Raised Library RuntimeError msg)"
    using Model_init_structure [OF i] unfolding s by (auto simp: composition_shape_def)
  then obtain msg where "instance_forward zero_numerics True (Model_instance self) w1 ?x =
      Inl (Raised Library RuntimeError msg)"
    unfolding instance_forward_Inl_iff by blast
  with i s show ?thesis by auto
qed




section \<open>Where exceptions come from\<close>

lemma lib_shape_Inl: "lib_shape tr l s d = Inl e \<Longrightarrow> raised_by e = Library"
  by (cases l)
     (auto simp: pool_shape_def not_3d_4d_def split: if_splits option.splits list.splits)

lemma forward_shape_Inl:
  "forward_shape tr m s d = Inl e \<Longrightarrow> raised_by e = Library"
  "forward_seq_shape tr ms s d = Inl e \<Longrightarrow> raised_by e = Library"
  by (induction tr m s d and tr ms s d rule: forward_shape_forward_seq_shape.induct)
     (auto dest: lib_shape_Inl split: sum.splits)

lemma composition_shape_Inl:
  "composition_shape tr ms axis s d = Inl e \<Longrightarrow> raised_by e = Library"
  by (auto simp: composition_shape_def bindE_eq_Inl view_def log_softmax_def Let_def
      dest: forward_shape_Inl split: if_splits)

lemma instance_forward_Inl:
  "instance_forward K tr inst w x = Inl e \<Longrightarrow> raised_by e = Library"
  by (simp add: instance_forward_Inl_iff composition_shape_Inl)

lemma normalizer_Inl:
  assumes "normalizer v c w = Inl e"
  shows "raised_by e = Library \<or>
         (e = Raised ThisFile ValueError ''Invalid NormalizationMethod'' \<and> (\<forall>m. v \<noteq> PyEnum m))"
proof (cases "\<exists>m. v = PyEnum m")
  case True
  then obtain m where "v = PyEnum m" by blast
  with assms show ?thesis by (cases m) (auto simp: ctor_defs split: if_splits)
next
  case False
  then have "v \<noteq> PyEnum BATCH" "v \<noteq> PyEnum LAYER" "v \<noteq> PyEnum GROUP" by auto
  with assms False show ?thesis by (simp add: normalizer_def)
qed

lemma Dropout_init_Inl: "Dropout_init v w = Inl e \<Longrightarrow> raised_by e = Library"
  by (cases v) (auto simp: Dropout_range_def split: if_splits)

lemma ConvLayer_init_Inl:
  assumes "ConvLayer_init K ci co p v w = Inl e"
  shows "raised_by e = Library \<or>
         (e = Raised ThisFile ValueError ''Invalid NormalizationMethod'' \<and> (\<forall>m. v \<noteq> PyEnum m))"
proof -
  from assms have "Conv2d_init K ci co (3, 3) p w = Inl e \<or>
      (\<exists>w1. normalizer v co w1 = Inl e)"
    by (auto simp: ConvLayer_init_def Sequential_init_def bindE_eq_Inl ReLU_init_def
        Dropout_range_def new_module_def split: sum.splits if_splits)
  then show ?thesis
    by (auto dest: normalizer_Inl simp: Conv2d_init_def negative_dimension_def Let_def split: if_splits)
qed

lemma TransBlock_init_Inl: "TransBlock_init K ci co w = Inl e \<Longrightarrow> raised_by e = Library"
  by (auto simp: TransBlock_init_def Sequential_init_def bindE_eq_Inl MaxPool2d_init_def
      Conv2d_init_def negative_dimension_def Let_def new_module_def split: sum.splits if_splits)

lemma Model_init_not_enum:
  assumes "\<forall>m. v \<noteq> PyEnum m"
  shows "Model_init K v w = Inl (Raised ThisFile ValueError ''Invalid NormalizationMethod'')"
proof -
  from assms have "v \<noteq> PyEnum BATCH" "v \<noteq> PyEnum LAYER" "v \<noteq> PyEnum GROUP" by auto
  then show ?thesis by (simp add: Model_init_def ctor_defs)
qed

lemma Model_init_Inl:
  assumes "Model_init K v w = Inl e"
  shows "e = Raised ThisFile ValueError ''Invalid NormalizationMethod'' \<and> (\<forall>m. v \<noteq> PyEnum m)"
proof (cases "\<exists>m. v = PyEnum m")
  case True
  then obtain m where "v = PyEnum m" by blast
  with Model_init_enum_succeeds [of K m w] assms show ?thesis by auto
next
  case False
  with Model_init_not_enum [of v K w] assms show ?thesis by simp
qed

lemma Session_7_Model_2_init_succeeds: "\<exists>self w'. Session_7_Model_2_init K w = Inr (self, w')"
  by (simp add: Session_7_Model_2_init_def ctor_defs)

lemma Session_7_Model_3_init_succeeds: "\<exists>self w'. Session_7_Model_3_init K w = Inr (self, w')"
  by (simp add: Session_7_Model_3_init_def ctor_defs)

text \<open>
  Claim C1, as the code has it. Every exception that \<^verbatim>\<open>forward\<close> of any class can leave
  with is raised by the library. Constructing \<open>Session_7_Model_2\<close> or
  \<open>Session_7_Model_3\<close> never fails, and constructing \<open>Model\<close> fails only for a
  \<^verbatim>\<open>norm_method\<close> that is no member of \<open>NormalizationMethod\<close>, with the
  \<open>ValueError\<close> that \<open>normalizer\<close> raises itself. That exception is the only one the
  helper \<open>normalizer\<close> and the constructors of \<open>ConvLayer\<close> and \<open>TransBlock\<close> raise
  that is not the library's.
\<close>

theorem failures_by_origin:
  "(\<forall>e. instance_forward K tr inst w x = Inl e \<longrightarrow> raised_by e = Library) \<and>
   (\<forall>e. construct K (New_Model v) w = Inl e \<longrightarrow>
      e = Raised ThisFile ValueError ''Invalid NormalizationMethod'' \<and> (\<forall>m. v \<noteq> PyEnum m)) \<and>
   (\<forall>e. construct K New_Session_7_Model_2 w \<noteq> Inl e) \<and>
   (\<forall>e. construct K New_Session_7_Model_3 w \<noteq> Inl e) \<and>
   (\<forall>e. normalizer v c w = Inl e \<longrightarrow>
      raised_by e = Library \<or>
      (e = Raised ThisFile ValueError ''Invalid NormalizationMethod'' \<and> (\<forall>m. v \<noteq> PyEnum m))) \<and>
   (\<forall>e. ConvLayer_init K ci co p v w = Inl e \<longrightarrow>
      raised_by e = Library \<or>
      (e = Raised ThisFile ValueError ''Invalid NormalizationMethod'' \<and> (\<forall>m. v \<noteq> PyEnum m))) \<and>
   (\<forall>e. TransBlock_init K ci co w = Inl e \<longrightarrow> raised_by e = Library)"
proof (intro conjI allI impI)
  fix e assume "construct K (New_Model v) w = Inl e"
  then have "Model_init K v w = Inl e" by (simp add: bindE_eq_Inl split: prod.splits)
  from Model_init_Inl [OF this]
  show "e = Raised ThisFile ValueError ''Invalid NormalizationMethod''" and "\<And>m. v \<noteq> PyEnum m"
    by simp_all
next
  fix e
  from Session_7_Model_2_init_succeeds [of K w]
  show "construct K New_Session_7_Model_2 w \<noteq> Inl e" by auto
  from Session_7_Model_3_init_succeeds [of K w]
  show "construct K New_Session_7_Model_3 w \<noteq> Inl e" by auto
qed (auto dest: instance_forward_Inl normalizer_Inl ConvLayer_init_Inl TransBlock_init_Inl)

theorem failures_by_origin_witness:
  "(\<exists>e. construct zero_numerics (New_Model PyNone) empty_world = Inl e \<and>
        e = Raised ThisFile ValueError ''Invalid NormalizationMethod'') \<and>
   (\<exists>e. normalizer (PyEnum GROUP) 10 empty_world = Inl e \<and> raised_by e = Library) \<and>
   (\<exists>inst w e. construct zero_numerics New_Session_7_Model_2 empty_world = Inr (inst, w) \<and>
        instance_forward zero_numerics True inst w (filled [1, 1, 2, 2] Float32 0) = Inl e \<and>
        raised_by e = Library)"
proof -
  have a: "construct zero_numerics (New_Model PyNone) empty_world =
     Inl (Raised ThisFile ValueError ''Invalid NormalizationMethod'')"
    by (simp add: Model_init_not_enum)
  have b: "normalizer (PyEnum GROUP) 10 empty_world =
     Inl (Raised Library ValueError ''num_channels must be divisible by num_groups'')"
    by (simp add: ctor_defs)
  obtain self w where i: "Session_7_Model_2_init zero_numerics empty_world = Inr (self, w)"
    and c: "construct zero_numerics New_Session_7_Model_2 empty_world =
              Inr (Session_7_Model_2_instance self, w)"
    by (rule s72_example)
  let ?inst = "Session_7_Model_2_instance self"
  let ?x = "filled [1, 1, 2, 2] Float32 0"
  have "\<exists>e. composition_shape True (blocks ?inst) (softmax_dim ?inst) (shape ?x) (dtype ?x) = Inl e"
    using i by (auto simp: Session_7_Model_2_init_def ctor_defs composition_shape_def filled_def)
  then obtain e where
    "composition_shape True (blocks ?inst) (softmax_dim ?inst) (shape ?x) (dtype ?x) = Inl e"
    by blast
  then have f: "instance_forward zero_numerics True ?inst w ?x = Inl e"
    by (simp only: instance_forward_Inl_iff)
  from failures_by_origin [THEN conjunct1, rule_format, OF f]
  have "raised_by e = Library" .
  moreover
  from failures_by_origin [THEN conjunct2, THEN conjunct1, rule_format, OF a]
  have "Raised ThisFile ValueError ''Invalid NormalizationMethod'' =
      Raised ThisFile ValueError ''Invalid NormalizationMethod''" by simp
  moreover
  from failures_by_origin [THEN conjunct2, THEN conjunct2, THEN conjunct2, THEN conjunct2,
      THEN conjunct1, rule_format, OF b]
  have "raised_by (Raised Library ValueError ''num_channels must be divisible by num_groups'') = Library"
    by simp
  ultimately show ?thesis using a b c f by auto
qed

text \<open>
  The claim as worded fails: \<open>Model(norm_method=None)\<close> leaves with the
  \<open>ValueError\<close> of \<open>normalizer\<close>, a statement of this file.
\<close>

theorem own_ValueError_counterexample:
  "construct zero_numerics (New_Model PyNone) empty_world =
     Inl (Raised ThisFile ValueError ''Invalid NormalizationMethod'') \<and>
   raised_by (Raised ThisFile ValueError ''Invalid NormalizationMethod'') \<noteq> Library"
  by (simp add: Model_init_not_enum)

section \<open>Separate instances\<close>

lemma lib_effect_cells: "b \<noteq> a \<Longrightarrow> cells (lib_effect K tr l a x w) b = cells w b"
  by (cases l) simp_all

lemma forward_frame:
  "forward K tr m w x = Inr (y, w') \<Longrightarrow> b \<notin> addrs m \<Longrightarrow> cells w' b = cells w b"
  "forward_seq K tr ms w x = Inr (y, w') \<Longrightarrow> b \<notin> addrs_seq ms \<Longrightarrow> cells w' b = cells w b"
proof (induction K tr m w x and K tr ms w x arbitrary: y w' and y w' rule: forward_forward_seq.induct)
  case (1 K tr l a w x)
  then show ?case
    by (auto simp: lib_forward_def log_call_def lib_effect_cells split: sum.splits)
next
  case (6 K tr m ms w x)
  from "6.prems"(1) obtain y1 w1 where a: "forward K tr m w x = Inr (y1, w1)"
    and b: "forward_seq K tr ms w1 y1 = Inr (y, w')"
    by (auto split: sum.splits)
  from "6.IH"(1) [OF a] "6.IH"(2) [OF a refl b] "6.prems"(2) show ?case by simp
qed simp_all

lemma composition_frame:
  assumes "composition K tr ms axis w x = Inr (y, w')" and "b \<notin> addrs_seq ms"
  shows "cells w' b = cells w b"
proof -
  from assms(1) obtain y1 w1 where a: "forward_seq K tr ms w x = Inr (y1, w1)"
    and w': "w' = log_call (LogSoftmax axis) (log_call (View [- 1, 10]) w1)"
    by (auto simp: composition_def call_view_def call_log_softmax_def bindE_eq_Inr)
  from forward_frame(2) [OF a assms(2)] w' show ?thesis by (simp add: log_call_def)
qed

lemma addrs_seq_butlast: "addrs_seq (butlast ms) \<subseteq> addrs_seq ms"
  by (induction ms) auto

lemma blocks_addrs: "addrs_seq (blocks inst) \<subseteq> instance_addrs inst"
  unfolding instance_addrs_def
  by (cases inst) (simp_all only: blocks.simps addrs_seq_butlast subset_refl)

lemma instance_forward_frame:
  assumes "instance_forward K tr inst w x = Inr (y, w')" and "b \<notin> instance_addrs inst"
  shows "cells w' b = cells w b"
  using composition_frame [of K tr "blocks inst" "softmax_dim inst" w x y w' b] assms blocks_addrs [of inst]
  by (auto simp: instance_forward_composition)

lemma Model_init_alloc:
  assumes "Model_init K (PyEnum nm) w0 = Inr (self, w1)"
  shows "(\<forall>a\<in>instance_addrs (Model_instance self). next_addr w0 \<le> a \<and> a < next_addr w1) \<and>
         next_addr w0 \<le> next_addr w1 \<and> (\<forall>a<next_addr w0. cells w1 a = cells w0 a)"
  using assms
  by (cases nm) (auto simp: Model_init_def ctor_defs instance_addrs_def)

lemma Session_7_Model_2_init_alloc:
  assumes "Session_7_Model_2_init K w0 = Inr (self, w1)"
  shows "(\<forall>a\<in>instance_addrs (Session_7_Model_2_instance self). next_addr w0 \<le> a \<and> a < next_addr w1) \<and>
         next_addr w0 \<le> next_addr w1 \<and> (\<forall>a<next_addr w0. cells w1 a = cells w0 a)"
  using assms
  by (auto simp: Session_7_Model_2_init_def ctor_defs instance_addrs_def)

lemma Session_7_Model_3_init_alloc:
  assumes "Session_7_Model_3_init K w0 = Inr (self, w1)"
  shows "(\<forall>a\<in>instance_addrs (Session_7_Model_3_instance self). next_addr w0 \<le> a \<and> a < next_addr w1) \<and>
         next_addr w0 \<le> next_addr w1 \<and> (\<forall>a<next_addr w0. cells w1 a = cells w0 a)"
  using assms
  by (auto simp: Session_7_Model_3_init_def ctor_defs instance_addrs_def)

lemma session_6_Model_init_fails:
  "session_6_Model_init K w = Inl (Raised ThisFile NameError ''dropout_value'')"
  by (simp add: session_6_Model_init_def ctor_defs)

lemma Session_7_Model_1_init_fails:
  "Session_7_Model_1_init K w = Inl (Raised ThisFile NameError ''dropout_value'')"
  by (simp add: Session_7_Model_1_init_def ctor_defs)

lemma construct_alloc:
  assumes "construct K c w0 = Inr (inst, w1)"
  shows "(\<forall>a\<in>instance_addrs inst. next_addr w0 \<le> a \<and> a < next_addr w1) \<and>
         next_addr w0 \<le> next_addr w1 \<and> (\<forall>a<next_addr w0. cells w1 a = cells w0 a)"
proof (cases c)
  case (New_Model v)
  with assms obtain self where i: "Model_init K v w0 = Inr (self, w1)"
    and inst: "inst = Model_instance self"
    by (auto simp: bindE_eq_Inr)
  from i Model_init_not_enum [of v K w0] obtain nm where "v = PyEnum nm" by auto
  with i inst Model_init_alloc [of K nm w0 self w1] show ?thesis by simp
next
  case New_session_6_Model
  with assms show ?thesis by (simp add: session_6_Model_init_fails)
next
  case New_Session_7_Model_1
  with assms show ?thesis by (simp add: Session_7_Model_1_init_fails)
next
  case New_Session_7_Model_2
  with assms obtain self where i: "Session_7_Model_2_init K w0 = Inr (self, w1)"
    and inst: "inst = Session_7_Model_2_instance self"
    by (auto simp: bindE_eq_Inr)
  with Session_7_Model_2_init_alloc [OF i] show ?thesis by simp
next
  case New_Session_7_Model_3
  with assms obtain self where i: "Session_7_Model_3_init K w0 = Inr (self, w1)"
    and inst: "inst = Session_7_Model_3_instance self"
    by (auto simp: bindE_eq_Inr)
  with Session_7_Model_3_init_alloc [OF i] show ?thesis by simp
qed

text \<open>
  Claim C6. Two instances share no parameter or buffer. Let a first instance be
  constructed, and a second one at any later time (the store only grows: no address of a
  live object is given out again). Then the two own disjoint cells; constructing the second
  leaves every cell of the first as it was; a \<^verbatim>\<open>forward\<close> call on either, in any mode and
  any state, leaves every cell of the other unchanged; and so does writing any parameter
  or buffer of the second.
\<close>

theorem instances_share_no_state:
  assumes "construct K1 c1 w0 = Inr (i1, w1)"
    and "next_addr w1 \<le> next_addr v"
    and "construct K2 c2 v = Inr (i2, v')"
  shows "instance_addrs i1 \<inter> instance_addrs i2 = {} \<and>
         (\<forall>a. a \<in> instance_addrs i1 \<longrightarrow> cells v' a = cells v a) \<and>
         (\<forall>K tr w x y w' a. instance_forward K tr i2 w x = Inr (y, w') \<and> a \<in> instance_addrs i1 \<longrightarrow>
            cells w' a = cells w a) \<and>
         (\<forall>K tr w x y w' a. instance_forward K tr i1 w x = Inr (y, w') \<and> a \<in> instance_addrs i2 \<longrightarrow>
            cells w' a = cells w a) \<and>
         (\<forall>b ps w a. b \<in> instance_addrs i2 \<and> a \<in> instance_addrs i1 \<longrightarrow>
            cells (set_param b ps w) a = cells w a)"
proof -
  from construct_alloc [OF assms(1)]
  have r1: "\<And>a. a \<in> instance_addrs i1 \<Longrightarrow> a < next_addr w1" by blast
  from construct_alloc [OF assms(3)]
  have r2: "\<And>a. a \<in> instance_addrs i2 \<Longrightarrow> next_addr v \<le> a"
    and old: "\<And>a. a < next_addr v \<Longrightarrow> cells v' a = cells v a"
    by blast+
  have disj: "a \<noteq> b" if "a \<in> instance_addrs i1" "b \<in> instance_addrs i2" for a b
    using r1 [OF that(1)] r2 [OF that(2)] assms(2) by simp
  have "instance_addrs i1 \<inter> instance_addrs i2 = {}"
    using disj by blast
  moreover have "\<forall>a. a \<in> instance_addrs i1 \<longrightarrow> cells v' a = cells v a"
    using r1 old assms(2) by (meson less_le_trans)
  moreover have "\<forall>K tr w x y w' a. instance_forward K tr i2 w x = Inr (y, w') \<and> a \<in> instance_addrs i1 \<longrightarrow>
            cells w' a = cells w a"
    using instance_forward_frame disj by blast
  moreover have "\<forall>K tr w x y w' a. instance_forward K tr i1 w x = Inr (y, w') \<and> a \<in> instance_addrs i2 \<longrightarrow>
            cells w' a = cells w a"
    using instance_forward_frame disj by blast
  moreover have "\<forall>b ps w a. b \<in> instance_addrs i2 \<and> a \<in> instance_addrs i1 \<longrightarrow>
            cells (set_param b ps w) a = cells w a"
    using disj by (auto simp: set_param_def)
  ultimately show ?thesis by blast
qed

theorem instances_share_no_state_witness:
  "\<exists>i1 w1 i2 w2 y w3.
     construct zero_numerics (New_Model (PyEnum BATCH)) empty_world = Inr (i1, w1) \<and>
     construct zero_numerics New_Session_7_Model_2 w1 = Inr (i2, w2) \<and>
     instance_forward zero_numerics True i2 w2 (filled [1, 1, 28, 28] Float32 0) = Inr (y, w3) \<and>
     0 \<in> instance_addrs i1 \<and>
     instance_addrs i1 \<inter> instance_addrs i2 = {} \<and>
     cells w2 0 = cells w1 0 \<and> cells w3 0 = cells w1 0"
proof -
  from Model_init_enum_succeeds [of zero_numerics BATCH empty_world]
  obtain self w1 where i: "Model_init zero_numerics (PyEnum BATCH) empty_world = Inr (self, w1)"
    by blast
  let ?i1 = "Model_instance self"
  from i have c1: "construct zero_numerics (New_Model (PyEnum BATCH)) empty_world = Inr (?i1, w1)"
    by simp
  from i have z: "0 \<in> instance_addrs ?i1"
    by (auto simp: Model_init_def ctor_defs instance_addrs_def empty_world_def)
  from Session_7_Model_2_init_succeeds [of zero_numerics w1]
  obtain self2 w2 where i2: "Session_7_Model_2_init zero_numerics w1 = Inr (self2, w2)"
    by blast
  let ?i2 = "Session_7_Model_2_instance self2"
  from i2 have c2: "construct zero_numerics New_Session_7_Model_2 w1 = Inr (?i2, w2)"
    by simp
  let ?x = "filled [1, 1, 28, 28] Float32 0"
  have "composition_shape True (blocks ?i2) (softmax_dim ?i2) (shape ?x) (dtype ?x) = Inr [1, 10]"
    using s72_shapes(1) [OF i2, of 1 True] by (simp add: filled_def)
  from instance_forward_shape_Inr [OF this, of zero_numerics w2]
  obtain y w3 where f: "instance_forward zero_numerics True ?i2 w2 ?x = Inr (y, w3)"
    by blast
  note t = instances_share_no_state [OF c1 order_refl c2]
  from t have "instance_addrs ?i1 \<inter> instance_addrs ?i2 = {}" by blast
  moreover from t z have "cells w2 0 = cells w1 0" by blast
  moreover from t z f have "cells w3 0 = cells w2 0" by blast
  ultimately show ?thesis using c1 c2 f z by auto
qed

section \<open>\<open>Session_7_Model_2\<close> and \<open>Session_7_Model_3\<close>\<close>

text \<open>
  A call of a module is the calls of its library modules in order; two lists of library
  modules with the same hyperparameters, each without a repeated cell, and with equal
  contents in corresponding cells, compute the same output from the same state.
\<close>

lemma forward_seq_append:
  "forward_seq K tr (ms @ ms') w x =
     bindE (forward_seq K tr ms w x) (\<lambda>(y, w'). forward_seq K tr ms' w' y)"
  by (induction ms arbitrary: w x) (auto split: sum.splits)

lemma libs_forward:
  "forward K tr m w x = forward_seq K tr (map (\<lambda>(l, a). Lib l a) (libs m)) w x"
  "forward_seq K tr ms w x = forward_seq K tr (map (\<lambda>(l, a). Lib l a) (libs_seq ms)) w x"
proof (induction m and ms arbitrary: w x and w x rule: libs_libs_seq.induct)
  case (1 l a)
  show ?case by (cases "lib_forward K tr l a w x") auto
next
  case (6 m ms)
  show ?case
    by (simp add: forward_seq_append forward_seq_Cons_bind "6.IH"(1) [symmetric] "6.IH"(2) [symmetric]
        del: forward_seq.simps(2))
qed simp_all

lemma lib_effect_rng:
  "rng w = rng v \<Longrightarrow> rng (lib_effect K tr l a x w) = rng (lib_effect K tr l b x v)"
  by (cases l) simp_all

lemma libs_related:
  assumes "map fst ps = map fst qs"
    and "distinct (map snd ps)" and "distinct (map snd qs)"
    and "rng w = rng v"
    and "map (cells w) (map snd ps) = map (cells v) (map snd qs)"
  shows "map_sum (\<lambda>e. e) (\<lambda>r. (fst r, rng (snd r))) (forward_seq K tr (map (\<lambda>(l, a). Lib l a) ps) w x) =
         map_sum (\<lambda>e. e) (\<lambda>r. (fst r, rng (snd r))) (forward_seq K tr (map (\<lambda>(l, a). Lib l a) qs) v x)"
  using assms
proof (induction ps arbitrary: qs w v x)
  case Nil
  then show ?case by simp
next
  case (Cons p ps)
  obtain l a where p: "p = (l, a)" by (cases p)
  from Cons.prems(1) p obtain b qs' where qs: "qs = (l, b) # qs'" and m: "map fst ps = map fst qs'"
    by (cases qs) auto
  from Cons.prems p qs have d: "a \<notin> snd ` set ps" "b \<notin> snd ` set qs'"
    "distinct (map snd ps)" "distinct (map snd qs')"
    and c: "cells w a = cells v b" "map (cells w) (map snd ps) = map (cells v) (map snd qs')"
    by auto
  show ?case
  proof (cases "lib_shape tr l (shape x) (dtype x)")
    case (Inl e)
    then show ?thesis by (simp add: p qs lib_forward_def)
  next
    case (Inr s)
    let ?y = "\<lparr>shape = s, dtype = dtype x, elems = kernel K l tr (rng w) (cells w a) x\<rparr>"
    let ?w1 = "log_call (Call l a) (lib_effect K tr l a x w)"
    let ?v1 = "log_call (Call l b) (lib_effect K tr l b x v)"
    have f1: "lib_forward K tr l a w x = Inr (?y, ?w1)"
      and f2: "lib_forward K tr l b v x = Inr (?y, ?v1)"
      using Inr c(1) Cons.prems(4) by (simp_all add: lib_forward_def)
    have r: "rng ?w1 = rng ?v1"
      using lib_effect_rng [OF Cons.prems(4)] by (simp add: log_call_def)
    have k1: "cells ?w1 c = cells w c" if "c \<in> set (map snd ps)" for c
    proof -
      from that d(1) have "c \<noteq> a" by auto
      then show ?thesis by (simp add: log_call_def lib_effect_cells)
    qed
    have e1: "map (cells ?w1) (map snd ps) = map (cells w) (map snd ps)"
      by (rule map_cong [OF refl]) (rule k1)
    have k2: "cells ?v1 c = cells v c" if "c \<in> set (map snd qs')" for c
    proof -
      from that d(2) have "c \<noteq> b" by auto
      then show ?thesis by (simp add: log_call_def lib_effect_cells)
    qed
    have e2: "map (cells ?v1) (map snd qs') = map (cells v) (map snd qs')"
      by (rule map_cong [OF refl]) (rule k2)
    have c1: "map (cells ?w1) (map snd ps) = map (cells ?v1) (map snd qs')"
      using c(2) by (simp only: e1 e2)
    from Cons.IH [OF m d(3) d(4) r c1] f1 f2 show ?thesis
      by (simp add: p qs)
  qed
qed

lemma composition_related:
  assumes "map fst (libs_seq ms) = map fst (libs_seq ms')"
    and "distinct (map snd (libs_seq ms))" and "distinct (map snd (libs_seq ms'))"
    and "map (cells w) (map snd (libs_seq ms)) = map (cells w) (map snd (libs_seq ms'))"
  shows "map_sum (\<lambda>e. e) fst (composition K tr ms axis w x) =
         map_sum (\<lambda>e. e) fst (composition K tr ms' axis w x)"
proof -
  let ?r = "forward_seq K tr ms w x" and ?r' = "forward_seq K tr ms' w x"
  from libs_related [OF assms(1-3) refl assms(4), of K tr x]
  have e: "map_sum (\<lambda>e. e) (\<lambda>r. (fst r, rng (snd r))) ?r =
           map_sum (\<lambda>e. e) (\<lambda>r. (fst r, rng (snd r))) ?r'"
    by (simp only: libs_forward(2) [symmetric])
  show ?thesis
  proof (cases ?r)
    case (Inl err)
    with e have "?r' = Inl err" by (cases ?r') simp_all
    with Inl show ?thesis by (simp add: composition_def)
  next
    case (Inr r)
    with e obtain r' where r': "?r' = Inr r'" and "fst r' = fst r" by (cases ?r') auto
    then obtain y w1 w1' where "r = (y, w1)" "r' = (y, w1')" by (cases r; cases r') auto
    with Inr r' show ?thesis
      by (cases "view y 10"; cases "log_softmax (projr (view y 10)) axis")
         (simp_all add: composition_def call_view_def call_log_softmax_def)
  qed
qed

lemma Session_7_Model_2_libs_distinct:
  assumes "Session_7_Model_2_init K u = Inr (m2, u')"
  shows "distinct (map snd (libs_seq (attributes (Session_7_Model_2_instance m2))))"
proof -
  from assms have "m2 = fst (projr (Session_7_Model_2_init K u))" by simp
  then show ?thesis
    by (simp add: Session_7_Model_2_init_def ctor_defs)
qed

lemma Session_7_Model_3_libs_distinct:
  assumes "Session_7_Model_3_init K u = Inr (m3, u')"
  shows "distinct (map snd (libs_seq (attributes (Session_7_Model_3_instance m3))))"
proof -
  from assms have "m3 = fst (projr (Session_7_Model_3_init K u))" by simp
  then show ?thesis
    by (simp add: Session_7_Model_3_init_def ctor_defs)
qed

lemma Session_7_layers:
  assumes "Session_7_Model_2_init K2 u = Inr (m2, u')" and "Session_7_Model_3_init K3 v = Inr (m3, v')"
  shows "map fst (libs_seq (attributes (Session_7_Model_2_instance m2))) =
         map fst (libs_seq (attributes (Session_7_Model_3_instance m3)))"
proof -
  from assms have "m2 = fst (projr (Session_7_Model_2_init K2 u))"
    and "m3 = fst (projr (Session_7_Model_3_init K3 v))" by simp_all
  then show ?thesis
    by (simp add: Session_7_Model_2_init_def Session_7_Model_3_init_def ctor_defs)
qed

lemma Session_7_same_world:
  assumes "Session_7_Model_2_init K u = Inr (m2, u')" and "Session_7_Model_3_init K u = Inr (m3, v')"
  shows "attributes (Session_7_Model_2_instance m2) = attributes (Session_7_Model_3_instance m3) \<and> u' = v'"
proof -
  from assms have "m2 = fst (projr (Session_7_Model_2_init K u))"
    and "u' = snd (projr (Session_7_Model_2_init K u))"
    and "m3 = fst (projr (Session_7_Model_3_init K u))"
    and "v' = snd (projr (Session_7_Model_3_init K u))"
    by simp_all
  then show ?thesis
    by (simp add: Session_7_Model_2_init_def Session_7_Model_3_init_def ctor_defs)
qed

lemma libs_addrs:
  "snd ` set (libs m) = addrs m"
  "snd ` set (libs_seq ms) = addrs_seq ms"
  by (induction m and ms rule: libs_libs_seq.induct) (auto simp: image_Un)

lemma zero_numerics_params:
  assumes "Session_7_Model_2_init zero_numerics u = Inr (m2, u')"
    and "Session_7_Model_3_init zero_numerics v = Inr (m3, v')"
  shows "map (cells u') (map snd (libs_seq (attributes (Session_7_Model_2_instance m2)))) =
         map (cells v') (map snd (libs_seq (attributes (Session_7_Model_3_instance m3))))"
proof -
  from assms have "m2 = fst (projr (Session_7_Model_2_init zero_numerics u))"
    and "u' = snd (projr (Session_7_Model_2_init zero_numerics u))"
    and "m3 = fst (projr (Session_7_Model_3_init zero_numerics v))"
    and "v' = snd (projr (Session_7_Model_3_init zero_numerics v))"
    by simp_all
  then show ?thesis
    by (simp add: Session_7_Model_2_init_def Session_7_Model_3_init_def ctor_defs
        zero_numerics_def filled_def)
qed

text \<open>
  Claim C9. An instance of \<open>Session_7_Model_2\<close> and an instance of
  \<open>Session_7_Model_3\<close>, each constructed at any time, consist of the same library
  modules with the same hyperparameters in the same order. In every state in which
  corresponding parameters and buffers of the two hold equal values, their \<^verbatim>\<open>forward\<close>
  calls on the same input, in the same mode, return the same tensor or raise the same
  exception. Constructed from the same state, the two classes build the same modules
  and leave the same state.
\<close>

theorem Session_7_Model_2_3_same_architecture:
  assumes "Session_7_Model_2_init K2 u = Inr (m2, u')"
    and "Session_7_Model_3_init K3 v = Inr (m3, v')"
  shows "map fst (libs_seq (attributes (Session_7_Model_2_instance m2))) =
           map fst (libs_seq (attributes (Session_7_Model_3_instance m3))) \<and>
         (\<forall>K tr w x.
            map (cells w) (map snd (libs_seq (attributes (Session_7_Model_2_instance m2)))) =
            map (cells w) (map snd (libs_seq (attributes (Session_7_Model_3_instance m3)))) \<longrightarrow>
            map_sum (\<lambda>e. e) fst (Session_7_Model_2_forward K tr m2 w x) =
            map_sum (\<lambda>e. e) fst (Session_7_Model_3_forward K tr m3 w x)) \<and>
         (K2 = K3 \<and> u = v \<longrightarrow>
            attributes (Session_7_Model_2_instance m2) = attributes (Session_7_Model_3_instance m3) \<and>
            u' = v')"
proof (intro conjI allI impI)
  show "map fst (libs_seq (attributes (Session_7_Model_2_instance m2))) =
           map fst (libs_seq (attributes (Session_7_Model_3_instance m3)))"
    by (rule Session_7_layers [OF assms])
next
  fix K :: numerics and tr :: bool and w :: world and x :: tensor
  assume p: "map (cells w) (map snd (libs_seq (attributes (Session_7_Model_2_instance m2)))) =
            map (cells w) (map snd (libs_seq (attributes (Session_7_Model_3_instance m3))))"
  let ?i2 = "Session_7_Model_2_instance m2" and ?i3 = "Session_7_Model_3_instance m3"
  have b: "blocks ?i2 = attributes ?i2" "blocks ?i3 = attributes ?i3" by simp_all
  from composition_related [OF Session_7_layers [OF assms]
      Session_7_Model_2_libs_distinct [OF assms(1)] Session_7_Model_3_libs_distinct [OF assms(2)] p,
      of K tr "- 1" x]
  have "map_sum (\<lambda>e. e) fst (instance_forward K tr ?i2 w x) =
        map_sum (\<lambda>e. e) fst (instance_forward K tr ?i3 w x)"
    unfolding instance_forward_composition b by simp
  then show "map_sum (\<lambda>e. e) fst (Session_7_Model_2_forward K tr m2 w x) =
            map_sum (\<lambda>e. e) fst (Session_7_Model_3_forward K tr m3 w x)"
    by simp
next
  assume "K2 = K3 \<and> u = v"
  with Session_7_same_world [of K2 u m2 u' m3 v'] assms
  show "attributes (Session_7_Model_2_instance m2) = attributes (Session_7_Model_3_instance m3)"
    and "u' = v'"
    by simp_all
qed

theorem Session_7_Model_2_3_same_architecture_witness:
  "\<exists>m2 w1 m3 w2 y wa wb.
     Session_7_Model_2_init zero_numerics empty_world = Inr (m2, w1) \<and>
     Session_7_Model_3_init zero_numerics w1 = Inr (m3, w2) \<and>
     Session_7_Model_2_forward zero_numerics True m2 w2 (filled [1, 1, 28, 28] Float32 0) = Inr (y, wa) \<and>
     Session_7_Model_3_forward zero_numerics True m3 w2 (filled [1, 1, 28, 28] Float32 0) = Inr (y, wb) \<and>
     shape y = [1, 10]"
proof -
  obtain m2 w1 where i2: "Session_7_Model_2_init zero_numerics empty_world = Inr (m2, w1)"
    by (rule s72_example)
  from Session_7_Model_3_init_succeeds [of zero_numerics w1]
  obtain m3 w2 where i3: "Session_7_Model_3_init zero_numerics w1 = Inr (m3, w2)"
    by blast
  let ?i2 = "Session_7_Model_2_instance m2" and ?i3 = "Session_7_Model_3_instance m3"
  let ?x = "filled [1, 1, 28, 28] Float32 0"
  from Session_7_Model_2_init_alloc [OF i2] Session_7_Model_3_init_alloc [OF i3]
  have k: "cells w2 a = cells w1 a" if "a \<in> instance_addrs ?i2" for a
    using that by auto
  have "map (cells w2) (map snd (libs_seq (attributes ?i2))) =
        map (cells w1) (map snd (libs_seq (attributes ?i2)))"
  proof (rule map_cong [OF refl])
    fix a assume "a \<in> set (map snd (libs_seq (attributes ?i2)))"
    then have "a \<in> instance_addrs ?i2"
      unfolding instance_addrs_def libs_addrs(2) [symmetric] by (simp only: set_map)
    then show "cells w2 a = cells w1 a" by (rule k)
  qed
  with zero_numerics_params [OF i2 i3]
  have p: "map (cells w2) (map snd (libs_seq (attributes ?i2))) =
           map (cells w2) (map snd (libs_seq (attributes ?i3)))"
    by simp
  from Session_7_Model_2_3_same_architecture [OF i2 i3, THEN conjunct2, THEN conjunct1, rule_format, OF p]
  have e: "map_sum (\<lambda>e. e) fst (Session_7_Model_2_forward zero_numerics True m2 w2 ?x) =
           map_sum (\<lambda>e. e) fst (Session_7_Model_3_forward zero_numerics True m3 w2 ?x)" .
  have "composition_shape True (blocks ?i2) (softmax_dim ?i2) (shape ?x) (dtype ?x) = Inr [1, 10]"
    using s72_shapes(1) [OF i2, of 1 True] by (simp add: filled_def)
  from instance_forward_shape_Inr [OF this, of zero_numerics w2]
  obtain y wa where f: "Session_7_Model_2_forward zero_numerics True m2 w2 ?x = Inr (y, wa)"
    and y: "shape y = [1, 10]"
    by auto
  from e f obtain wb where "Session_7_Model_3_forward zero_numerics True m3 w2 ?x = Inr (y, wb)"
    by (cases "Session_7_Model_3_forward zero_numerics True m3 w2 ?x") auto
  with i2 i3 f y show ?thesis by blast
qed

end
